theory Spec2Isabelle
  imports Complex_Main "HOL-Library.AList"
begin

section \<open>Mesh Maker: the data model of types.ts\<close>

text \<open>
  Conventions of the embedding.
  \<^item> A JavaScript \<open>number\<close> is a real number: arithmetic is exact, and there is no NaN
    and no infinity. Frame indices and \<open>currentFrameIndex\<close> are integers.
  \<^item> A \<open>Map<string, V>\<close> is an association list in insertion order:
    \<open>Map.get\<close> is \<open>map_of\<close>, \<open>Map.set\<close> is \<open>AList.update\<close> (an existing key keeps
    its place, a new key goes to the end), \<open>Map.delete\<close> is \<open>AList.delete\<close>.
  \<^item> A \<open>Set<string>\<close> that is only tested for membership is a \<open>string set\<close>.
  \<^item> The discriminated union \<open>Shape\<close> is a record of the \<open>BaseShape\<close> fields with a
    datatype for the variant part.
  \<^item> \<open>generateId()\<close> and \<open>Date.now()\<close> are read from an environment record passed
    to the reducer, one value per reducer call.
\<close>

datatype json =
    JNull
  | JBool bool
  | JNum real
  | JStr string
  | JArr "json list"
  | JObj "(string \<times> json) list"

datatype VertexType = Anchor | Control

record Vertex =
  v_id :: string
  v_x :: real
  v_y :: real
  v_type :: VertexType
  v_parentId :: "string option"

record Style =
  color :: string
  strokeWidth :: real
  fill :: "string option"
  opacity :: "real option"

record BezierSegment =
  p0 :: string
  p1 :: string
  p2 :: string
  p3 :: string

datatype ShapeKind =
    Line
  | Rect
  | Circle real
  | Bezier "BezierSegment list" bool
  | Polygon bool

record Shape =
  s_id :: string
  s_kind :: ShapeKind
  vertexIds :: "string list"
  style :: Style
  visible :: bool
  locked :: bool
  metadata :: "json option"

record ShapeGroup =
  g_id :: string
  g_name :: string
  shapeIds :: "string list"
  g_locked :: bool

record Pos =
  pos_x :: real
  pos_y :: real

text \<open>
  A frame's \<open>shapeProperties\<close> maps a shape id to \<open>{ radius?: number }\<close>: the value is
  the optional radius.
\<close>

record Frame =
  f_id :: string
  f_name :: string
  f_vertices :: "(string \<times> Pos) list"
  shapeProperties :: "(string \<times> real option) list"
  f_timestamp :: real

record Snapshot =
  snap_vertices :: "(string \<times> Vertex) list"
  snap_shapes :: "(string \<times> Shape) list"

record History =
  past :: "Snapshot list"
  future :: "Snapshot list"

record AppState =
  vertices :: "(string \<times> Vertex) list"
  shapes :: "(string \<times> Shape) list"
  groups :: "(string \<times> ShapeGroup) list"
  frames :: "Frame list"
  currentFrameIndex :: int
  isRecording :: bool
  selectedVertexIds :: "string set"
  selectedShapeIds :: "string set"
  hoveredVertexId :: "string option"
  hoveredShapeId :: "string option"
  history :: History

text \<open>
  \<open>Partial<Vertex>\<close>, \<open>Partial<Shape>\<close> and \<open>Partial<Frame>\<close>: every field optional.
  A shape update keeps the shape's \<open>type\<close> tag; \<open>radius\<close>, \<open>segments\<close> and \<open>closed\<close>
  apply to the variants that have the field.
\<close>

record VertexUpdates =
  vu_id :: "string option"
  vu_x :: "real option"
  vu_y :: "real option"
  vu_type :: "VertexType option"
  vu_parentId :: "string option"

record ShapeUpdates =
  su_id :: "string option"
  su_vertexIds :: "string list option"
  su_style :: "Style option"
  su_visible :: "bool option"
  su_locked :: "bool option"
  su_metadata :: "json option"
  su_radius :: "real option"
  su_segments :: "BezierSegment list option"
  su_closed :: "bool option"

record FrameUpdates =
  fu_id :: "string option"
  fu_name :: "string option"
  fu_vertices :: "(string \<times> Pos) list option"
  fu_shapeProperties :: "(string \<times> real option) list option"
  fu_timestamp :: "real option"

datatype AppAction =
    ADD_VERTEX Vertex
  | UPDATE_VERTEX string VertexUpdates
  | DELETE_VERTEX string
  | ADD_SHAPE Shape
  | UPDATE_SHAPE string ShapeUpdates
  | DELETE_SHAPE string
  | SELECT_VERTICES "string list" bool
  | SELECT_SHAPES "string list" bool
  | HOVER_VERTEX "string option"
  | HOVER_SHAPE "string option"
  | CREATE_GROUP string "string list"
  | DELETE_GROUP string
  | MERGE_VERTICES "string list" Pos
  | IMPORT_DATA "(string \<times> Vertex) list" "(string \<times> Shape) list"
      "(string \<times> ShapeGroup) list" "Frame list option"
  | ADD_FRAME Frame
  | UPDATE_FRAME int FrameUpdates
  | DELETE_FRAME int
  | SET_CURRENT_FRAME int
  | START_RECORDING
  | STOP_RECORDING
  | RECORD_FRAME "string option"
  | APPLY_FRAME int
  | INTERPOLATE_FRAMES int int real
  | UNDO
  | REDO
  | CLEAR_ALL
  | UPDATE_CURRENT_FRAME_DATA
  | BATCH_UPDATE "(string \<times> VertexUpdates) list option" "(string \<times> ShapeUpdates) list option"

record Env =
  genId :: string
  now :: real

section \<open>utils.ts: lerp\<close>

definition lerp :: "real \<Rightarrow> real \<Rightarrow> real \<Rightarrow> real" where
  "lerp a b t = a + (b - a) * t"

section \<open>reducer.ts: appReducer\<close>

text \<open>\<open>{ ...vertex, ...updates }\<close>\<close>

definition applyVertexUpdates :: "Vertex \<Rightarrow> VertexUpdates \<Rightarrow> Vertex" where
  "applyVertexUpdates v u =
     \<lparr> v_id = (case vu_id u of None \<Rightarrow> v_id v | Some i \<Rightarrow> i),
       v_x = (case vu_x u of None \<Rightarrow> v_x v | Some a \<Rightarrow> a),
       v_y = (case vu_y u of None \<Rightarrow> v_y v | Some a \<Rightarrow> a),
       v_type = (case vu_type u of None \<Rightarrow> v_type v | Some t \<Rightarrow> t),
       v_parentId = (case vu_parentId u of None \<Rightarrow> v_parentId v | Some p \<Rightarrow> Some p) \<rparr>"

fun applyKindUpdates :: "ShapeKind \<Rightarrow> ShapeUpdates \<Rightarrow> ShapeKind" where
  "applyKindUpdates (Circle r) u = Circle (case su_radius u of None \<Rightarrow> r | Some r' \<Rightarrow> r')"
| "applyKindUpdates (Bezier segs c) u =
     Bezier (case su_segments u of None \<Rightarrow> segs | Some segs' \<Rightarrow> segs')
            (case su_closed u of None \<Rightarrow> c | Some c' \<Rightarrow> c')"
| "applyKindUpdates (Polygon c) u = Polygon (case su_closed u of None \<Rightarrow> c | Some c' \<Rightarrow> c')"
| "applyKindUpdates k u = k"

text \<open>\<open>{ ...shape, ...updates }\<close>\<close>

definition applyShapeUpdates :: "Shape \<Rightarrow> ShapeUpdates \<Rightarrow> Shape" where
  "applyShapeUpdates sh u =
     \<lparr> s_id = (case su_id u of None \<Rightarrow> s_id sh | Some i \<Rightarrow> i),
       s_kind = applyKindUpdates (s_kind sh) u,
       vertexIds = (case su_vertexIds u of None \<Rightarrow> vertexIds sh | Some vs \<Rightarrow> vs),
       style = (case su_style u of None \<Rightarrow> style sh | Some st \<Rightarrow> st),
       visible = (case su_visible u of None \<Rightarrow> visible sh | Some b \<Rightarrow> b),
       locked = (case su_locked u of None \<Rightarrow> locked sh | Some b \<Rightarrow> b),
       metadata = (case su_metadata u of None \<Rightarrow> metadata sh | Some m \<Rightarrow> Some m) \<rparr>"

text \<open>\<open>{ ...frame, ...updates }\<close>\<close>

definition applyFrameUpdates :: "Frame \<Rightarrow> FrameUpdates \<Rightarrow> Frame" where
  "applyFrameUpdates f u =
     \<lparr> f_id = (case fu_id u of None \<Rightarrow> f_id f | Some i \<Rightarrow> i),
       f_name = (case fu_name u of None \<Rightarrow> f_name f | Some n \<Rightarrow> n),
       f_vertices = (case fu_vertices u of None \<Rightarrow> f_vertices f | Some vs \<Rightarrow> vs),
       shapeProperties =
         (case fu_shapeProperties u of None \<Rightarrow> shapeProperties f | Some ps \<Rightarrow> ps),
       f_timestamp = (case fu_timestamp u of None \<Rightarrow> f_timestamp f | Some t \<Rightarrow> t) \<rparr>"

text \<open>
  \<open>saveHistory()\<close>: the snapshot of the state before the action is appended to
  \<open>past\<close>, \<open>.slice(-50)\<close> keeps the last 50 entries, \<open>future\<close> is emptied.
\<close>

definition slice_last :: "nat \<Rightarrow> 'a list \<Rightarrow> 'a list" where
  "slice_last n xs = drop (length xs - n) xs"

definition snapshot :: "AppState \<Rightarrow> Snapshot" where
  "snapshot state = \<lparr> snap_vertices = vertices state, snap_shapes = shapes state \<rparr>"

definition saveHistory :: "AppState \<Rightarrow> History" where
  "saveHistory state =
     \<lparr> past = slice_last 50 (past (history state) @ [snapshot state]), future = [] \<rparr>"

text \<open>\<open>state.frames[i]\<close>: \<open>undefined\<close> outside the array.\<close>

definition frameAt :: "Frame list \<Rightarrow> int \<Rightarrow> Frame option" where
  "frameAt fs i = (if 0 \<le> i \<and> i < int (length fs) then Some (fs ! nat i) else None)"

text \<open>\<open>Set.add\<close> on an insertion-ordered set held as a list.\<close>

definition set_add :: "'a \<Rightarrow> 'a list \<Rightarrow> 'a list" where
  "set_add x xs = (if x \<in> set xs then xs else xs @ [x])"

text \<open>The template literal \<open>`Frame ${n}`\<close> needs the decimal digits of a natural number.\<close>

fun showNat :: "nat \<Rightarrow> string" where
  "showNat n =
     (if n < 10 then [''0123456789'' ! n] else showNat (n div 10) @ [''0123456789'' ! (n mod 10)])"

declare showNat.simps [simp del]

text \<open>RECORD_FRAME and UPDATE_CURRENT_FRAME_DATA: the live positions and circle radii.\<close>

definition captureVertexPositions :: "(string \<times> Vertex) list \<Rightarrow> (string \<times> Pos) list" where
  "captureVertexPositions vs =
     fold (\<lambda>(i, vertex) m. AList.update i \<lparr> pos_x = v_x vertex, pos_y = v_y vertex \<rparr> m) vs []"

definition captureShapeProperties :: "(string \<times> Shape) list \<Rightarrow> (string \<times> real option) list" where
  "captureShapeProperties ss =
     fold (\<lambda>(i, shape) m. case s_kind shape of Circle r \<Rightarrow> AList.update i (Some r) m | _ \<Rightarrow> m)
       ss []"

text \<open>DELETE_VERTEX: the ids of the shapes whose \<open>vertexIds\<close> include the vertex.\<close>

definition shapesToDelete :: "string \<Rightarrow> (string \<times> Shape) list \<Rightarrow> string list" where
  "shapesToDelete vid ss =
     fold (\<lambda>(i, shape) acc. if vid \<in> set (vertexIds shape) then acc @ [i] else acc) ss []"

text \<open>DELETE_SHAPE on a bezier: the control points \<open>p1\<close>, \<open>p2\<close> of its segments.\<close>

definition vertexIdsToCheck :: "BezierSegment list \<Rightarrow> string list" where
  "vertexIdsToCheck segs = fold (\<lambda>seg acc. set_add (p2 seg) (set_add (p1 seg) acc)) segs []"

definition isUsedElsewhere :: "(string \<times> Shape) list \<Rightarrow> string \<Rightarrow> string \<Rightarrow> bool" where
  "isUsedElsewhere ss sid vertexId =
     fold (\<lambda>(otherId, otherShape) used.
             if otherId \<noteq> sid \<and> vertexId \<in> set (vertexIds otherShape) then True else used)
       ss False"

text \<open>MERGE_VERTICES: the rewriting of one segment and of one shape.\<close>

definition mergeSegment :: "string set \<Rightarrow> string \<Rightarrow> BezierSegment \<Rightarrow> BezierSegment" where
  "mergeSegment vertexIdSet mergedId seg =
     \<lparr> p0 = (if p0 seg \<in> vertexIdSet then mergedId else p0 seg),
       p1 = (if p1 seg \<in> vertexIdSet then mergedId else p1 seg),
       p2 = (if p2 seg \<in> vertexIdSet then mergedId else p2 seg),
       p3 = (if p3 seg \<in> vertexIdSet then mergedId else p3 seg) \<rparr>"

definition segmentTouched :: "string set \<Rightarrow> BezierSegment \<Rightarrow> bool" where
  "segmentTouched vertexIdSet seg =
     (p0 seg \<in> vertexIdSet \<or> p1 seg \<in> vertexIdSet \<or> p2 seg \<in> vertexIdSet \<or> p3 seg \<in> vertexIdSet)"

definition segmentIds :: "BezierSegment list \<Rightarrow> string list" where
  "segmentIds segs = concat (map (\<lambda>s. [p0 s, p1 s, p2 s, p3 s]) segs)"

text \<open>
  The body of \<open>newShapes.forEach\<close> in MERGE_VERTICES: \<open>Some\<close> of the shape written back
  with \<open>newShapes.set\<close>, \<open>None\<close> when the body writes nothing.
\<close>

definition mergeShape :: "string set \<Rightarrow> string \<Rightarrow> Shape \<Rightarrow> Shape option" where
  "mergeShape vertexIdSet mergedId shape =
     (case s_kind shape of
        Bezier segs c \<Rightarrow>
          (let newSegments = map (mergeSegment vertexIdSet mergedId) segs;
               updated = list_ex (segmentTouched vertexIdSet) segs
           in if updated
              then Some (shape\<lparr> s_kind := Bezier newSegments c,
                                vertexIds := segmentIds newSegments \<rparr>)
              else None)
      | _ \<Rightarrow>
          (let newVertexIds = map (\<lambda>vId. if vId \<in> vertexIdSet then mergedId else vId)
                                  (vertexIds shape)
           in if list_ex (\<lambda>(vId, old). vId \<noteq> old) (zip newVertexIds (vertexIds shape))
              then Some (shape\<lparr> vertexIds := newVertexIds \<rparr>)
              else None))"

definition mergeShapes :: "string set \<Rightarrow> string \<Rightarrow> (string \<times> Shape) list \<Rightarrow> (string \<times> Shape) list" where
  "mergeShapes vertexIdSet mergedId ss =
     fold (\<lambda>(shapeId, shape) newShapes.
             case mergeShape vertexIdSet mergedId shape of
               None \<Rightarrow> newShapes
             | Some shape' \<Rightarrow> AList.update shapeId shape' newShapes)
       ss ss"

text \<open>APPLY_FRAME: the two \<open>forEach\<close> loops over the frame's maps.\<close>

definition applyFramePositions :: "(string \<times> Pos) list \<Rightarrow> (string \<times> Vertex) list \<Rightarrow> (string \<times> Vertex) list" where
  "applyFramePositions fv vs =
     fold (\<lambda>(vertexId, pos) newVertices.
             case map_of newVertices vertexId of
               None \<Rightarrow> newVertices
             | Some vertex \<Rightarrow>
                 AList.update vertexId (vertex\<lparr> v_x := pos_x pos, v_y := pos_y pos \<rparr>) newVertices)
       fv vs"

definition applyFrameProps :: "(string \<times> real option) list \<Rightarrow> (string \<times> Shape) list \<Rightarrow> (string \<times> Shape) list" where
  "applyFrameProps fp ss =
     fold (\<lambda>(shapeId, props) newShapes.
             case (map_of newShapes shapeId, props) of
               (Some shape, Some r) \<Rightarrow>
                 (case s_kind shape of
                    Circle _ \<Rightarrow> AList.update shapeId (shape\<lparr> s_kind := Circle r \<rparr>) newShapes
                  | _ \<Rightarrow> newShapes)
             | _ \<Rightarrow> newShapes)
       fp ss"

text \<open>
  INTERPOLATE_FRAMES: the two \<open>forEach\<close> loops over the live maps. The body of each
  loop is a function to \<open>Some\<close> of the value it writes back under the visited key, or
  \<open>None\<close> when it writes nothing.
\<close>

definition interpolateVertex :: "Frame \<Rightarrow> Frame \<Rightarrow> real \<Rightarrow> string \<Rightarrow> Vertex \<Rightarrow> Vertex option" where
  "interpolateVertex fromFrame toFrame t i vertex =
     (case (map_of (f_vertices fromFrame) i, map_of (f_vertices toFrame) i) of
        (Some fromPos, Some toPos) \<Rightarrow>
          Some (vertex\<lparr> v_x := lerp (pos_x fromPos) (pos_x toPos) t,
                        v_y := lerp (pos_y fromPos) (pos_y toPos) t \<rparr>)
      | _ \<Rightarrow> None)"

definition interpolateVertices :: "Frame \<Rightarrow> Frame \<Rightarrow> real \<Rightarrow> (string \<times> Vertex) list \<Rightarrow> (string \<times> Vertex) list" where
  "interpolateVertices fromFrame toFrame t vs =
     fold (\<lambda>(i, vertex) newVertices.
             case interpolateVertex fromFrame toFrame t i vertex of
               None \<Rightarrow> newVertices
             | Some vertex' \<Rightarrow> AList.update i vertex' newVertices)
       vs vs"

text \<open>\<open>fromProps?.radius\<close>: \<open>undefined\<close> when the entry is missing or has no radius.\<close>

definition radiusOf :: "(string \<times> real option) list \<Rightarrow> string \<Rightarrow> real option" where
  "radiusOf props i = (case map_of props i of None \<Rightarrow> None | Some r \<Rightarrow> r)"

definition interpolateShape :: "Frame \<Rightarrow> Frame \<Rightarrow> real \<Rightarrow> string \<Rightarrow> Shape \<Rightarrow> Shape option" where
  "interpolateShape fromFrame toFrame t i shape =
     (case s_kind shape of
        Circle _ \<Rightarrow>
          (case (radiusOf (shapeProperties fromFrame) i, radiusOf (shapeProperties toFrame) i) of
             (Some fromR, Some toR) \<Rightarrow> Some (shape\<lparr> s_kind := Circle (lerp fromR toR t) \<rparr>)
           | _ \<Rightarrow> None)
      | _ \<Rightarrow> None)"

definition interpolateShapes :: "Frame \<Rightarrow> Frame \<Rightarrow> real \<Rightarrow> (string \<times> Shape) list \<Rightarrow> (string \<times> Shape) list" where
  "interpolateShapes fromFrame toFrame t ss =
     fold (\<lambda>(i, shape) newShapes.
             case interpolateShape fromFrame toFrame t i shape of
               None \<Rightarrow> newShapes
             | Some shape' \<Rightarrow> AList.update i shape' newShapes)
       ss ss"

text \<open>BATCH_UPDATE: the two optional update lists.\<close>

definition batchVertices :: "(string \<times> VertexUpdates) list \<Rightarrow> (string \<times> Vertex) list \<Rightarrow> (string \<times> Vertex) list" where
  "batchVertices us vs =
     fold (\<lambda>(i, updates) newVertices.
             case map_of newVertices i of
               None \<Rightarrow> newVertices
             | Some vertex \<Rightarrow> AList.update i (applyVertexUpdates vertex updates) newVertices)
       us vs"

definition batchShapes :: "(string \<times> ShapeUpdates) list \<Rightarrow> (string \<times> Shape) list \<Rightarrow> (string \<times> Shape) list" where
  "batchShapes us ss =
     fold (\<lambda>(i, updates) newShapes.
             case map_of newShapes i of
               None \<Rightarrow> newShapes
             | Some shape \<Rightarrow> AList.update i (applyShapeUpdates shape updates) newShapes)
       us ss"

definition emptyState :: AppState where
  "emptyState =
     \<lparr> vertices = [], shapes = [], groups = [], frames = [], currentFrameIndex = 0,
       isRecording = False, selectedVertexIds = {}, selectedShapeIds = {},
       hoveredVertexId = None, hoveredShapeId = None,
       history = \<lparr> past = [], future = [] \<rparr> \<rparr>"

fun appReducer :: "Env \<Rightarrow> AppState \<Rightarrow> AppAction \<Rightarrow> AppState" where
  "appReducer env state (ADD_VERTEX vertex) =
     state\<lparr> vertices := AList.update (v_id vertex) vertex (vertices state),
            history := saveHistory state \<rparr>"
| "appReducer env state (UPDATE_VERTEX i updates) =
     (case map_of (vertices state) i of
        None \<Rightarrow> state
      | Some vertex \<Rightarrow>
          state\<lparr> vertices := AList.update i (applyVertexUpdates vertex updates) (vertices state) \<rparr>)"
| "appReducer env state (DELETE_VERTEX i) =
     state\<lparr> vertices := AList.delete i (vertices state),
            shapes := fold AList.delete (shapesToDelete i (shapes state)) (shapes state),
            selectedVertexIds := {j \<in> selectedVertexIds state. j \<noteq> i},
            history := saveHistory state \<rparr>"
| "appReducer env state (ADD_SHAPE shape) =
     state\<lparr> shapes := AList.update (s_id shape) shape (shapes state),
            history := saveHistory state \<rparr>"
| "appReducer env state (UPDATE_SHAPE i updates) =
     (case map_of (shapes state) i of
        None \<Rightarrow> state
      | Some shape \<Rightarrow>
          state\<lparr> shapes := AList.update i (applyShapeUpdates shape updates) (shapes state) \<rparr>)"
| "appReducer env state (DELETE_SHAPE i) =
     (case map_of (shapes state) i of
        Some shape \<Rightarrow>
          (case s_kind shape of
             Bezier segs c \<Rightarrow>
               state\<lparr> shapes := AList.delete i (shapes state),
                      vertices :=
                        fold (\<lambda>vertexId newVertices.
                                if \<not> isUsedElsewhere (shapes state) i vertexId
                                then AList.delete vertexId newVertices else newVertices)
                          (vertexIdsToCheck segs) (vertices state),
                      selectedShapeIds := {j \<in> selectedShapeIds state. j \<noteq> i},
                      history := saveHistory state \<rparr>
           | _ \<Rightarrow>
               state\<lparr> shapes := AList.delete i (shapes state),
                      selectedShapeIds := {j \<in> selectedShapeIds state. j \<noteq> i},
                      history := saveHistory state \<rparr>)
      | None \<Rightarrow>
          state\<lparr> shapes := AList.delete i (shapes state),
                 selectedShapeIds := {j \<in> selectedShapeIds state. j \<noteq> i},
                 history := saveHistory state \<rparr>)"
| "appReducer env state (SELECT_VERTICES ids isAdditive) =
     (if isAdditive then state\<lparr> selectedVertexIds := selectedVertexIds state \<union> set ids \<rparr>
      else state\<lparr> selectedVertexIds := set ids \<rparr>)"
| "appReducer env state (SELECT_SHAPES ids isAdditive) =
     (if isAdditive then state\<lparr> selectedShapeIds := selectedShapeIds state \<union> set ids \<rparr>
      else state\<lparr> selectedShapeIds := set ids \<rparr>)"
| "appReducer env state (HOVER_VERTEX i) = state\<lparr> hoveredVertexId := i \<rparr>"
| "appReducer env state (HOVER_SHAPE i) = state\<lparr> hoveredShapeId := i \<rparr>"
| "appReducer env state (CREATE_GROUP name sids) =
     state\<lparr> groups :=
              AList.update (genId env)
                \<lparr> g_id = genId env, g_name = name, shapeIds = sids, g_locked = False \<rparr>
                (groups state) \<rparr>"
| "appReducer env state (DELETE_GROUP i) = state\<lparr> groups := AList.delete i (groups state) \<rparr>"
| "appReducer env state (MERGE_VERTICES ids targetPosition) =
     (if length ids < 2 then state
      else
        let mergedVertex = \<lparr> v_id = genId env, v_x = pos_x targetPosition,
                             v_y = pos_y targetPosition, v_type = Anchor, v_parentId = None \<rparr>;
            newVertices = AList.update (v_id mergedVertex) mergedVertex (vertices state);
            newShapes = mergeShapes (set ids) (v_id mergedVertex) (shapes state)
        in state\<lparr> vertices := fold AList.delete ids newVertices,
                  shapes := newShapes,
                  selectedVertexIds := {v_id mergedVertex},
                  history := saveHistory state \<rparr>)"
| "appReducer env state (IMPORT_DATA vs ss gs fs) =
     state\<lparr> vertices := vs, shapes := ss, groups := gs,
            frames := (case fs of None \<Rightarrow> frames state | Some fs' \<Rightarrow> fs'),
            currentFrameIndex := 0,
            selectedVertexIds := {}, selectedShapeIds := {},
            hoveredVertexId := None, hoveredShapeId := None,
            history := saveHistory state \<rparr>"
| "appReducer env state START_RECORDING = state\<lparr> isRecording := True \<rparr>"
| "appReducer env state STOP_RECORDING = state\<lparr> isRecording := False \<rparr>"
| "appReducer env state (RECORD_FRAME name) =
     (let newFrame =
            \<lparr> f_id = genId env,
              f_name = (case name of
                          None \<Rightarrow> ''Frame '' @ showNat (length (frames state) + 1)
                        | Some n \<Rightarrow> if n = [] then ''Frame '' @ showNat (length (frames state) + 1)
                                    else n),
              f_vertices = captureVertexPositions (vertices state),
              shapeProperties = captureShapeProperties (shapes state),
              f_timestamp = now env \<rparr>
      in state\<lparr> frames := frames state @ [newFrame],
                currentFrameIndex := int (length (frames state)) \<rparr>)"
| "appReducer env state (DELETE_FRAME frameIndex) =
     (if frameIndex < 0 \<or> frameIndex \<ge> int (length (frames state)) then state
      else
        let newFrames = take (nat frameIndex) (frames state) @ drop (nat frameIndex + 1) (frames state)
        in state\<lparr> frames := newFrames,
                  currentFrameIndex := min (currentFrameIndex state) (int (length newFrames) - 1) \<rparr>)"
| "appReducer env state (SET_CURRENT_FRAME frameIndex) =
     (if frameIndex < 0 \<or> frameIndex \<ge> int (length (frames state)) then state
      else state\<lparr> currentFrameIndex := frameIndex \<rparr>)"
| "appReducer env state (APPLY_FRAME frameIndex) =
     (if frameIndex < 0 \<or> frameIndex \<ge> int (length (frames state)) then state
      else
        let frame = frames state ! nat frameIndex
        in state\<lparr> vertices := applyFramePositions (f_vertices frame) (vertices state),
                  shapes := applyFrameProps (shapeProperties frame) (shapes state),
                  currentFrameIndex := frameIndex \<rparr>)"
| "appReducer env state (INTERPOLATE_FRAMES fromIndex toIndex t0) =
     (case (frameAt (frames state) fromIndex, frameAt (frames state) toIndex) of
        (Some fromFrame, Some toFrame) \<Rightarrow>
          (let t = max 0 (min 1 t0)
           in state\<lparr> vertices := interpolateVertices fromFrame toFrame t (vertices state),
                     shapes := interpolateShapes fromFrame toFrame t (shapes state) \<rparr>)
      | _ \<Rightarrow> state)"
| "appReducer env state (UPDATE_FRAME frameIndex updates) =
     (if frameIndex < 0 \<or> frameIndex \<ge> int (length (frames state)) then state
      else state\<lparr> frames :=
                    (frames state)[nat frameIndex :=
                       applyFrameUpdates (frames state ! nat frameIndex) updates] \<rparr>)"
| "appReducer env state UPDATE_CURRENT_FRAME_DATA =
     (if currentFrameIndex state < 0 \<or> currentFrameIndex state \<ge> int (length (frames state))
      then state
      else state\<lparr> frames :=
                    (frames state)[nat (currentFrameIndex state) :=
                       (frames state ! nat (currentFrameIndex state))
                         \<lparr> f_vertices := captureVertexPositions (vertices state),
                           shapeProperties := captureShapeProperties (shapes state),
                           f_timestamp := now env \<rparr>] \<rparr>)"
| "appReducer env state (BATCH_UPDATE vus sus) =
     state\<lparr> vertices := (case vus of None \<Rightarrow> vertices state
                                   | Some us \<Rightarrow> batchVertices us (vertices state)),
            shapes := (case sus of None \<Rightarrow> shapes state
                                 | Some us \<Rightarrow> batchShapes us (shapes state)) \<rparr>"
| "appReducer env state UNDO =
     (if past (history state) = [] then state
      else
        let previous = last (past (history state));
            newPast = butlast (past (history state))
        in state\<lparr> vertices := snap_vertices previous,
                  shapes := snap_shapes previous,
                  history := \<lparr> past = newPast,
                               future = snapshot state # future (history state) \<rparr> \<rparr>)"
| "appReducer env state REDO =
     (case future (history state) of
        [] \<Rightarrow> state
      | nxt # newFuture \<Rightarrow>
          state\<lparr> vertices := snap_vertices nxt,
                 shapes := snap_shapes nxt,
                 history := \<lparr> past = past (history state) @ [snapshot state],
                              future = newFuture \<rparr> \<rparr>)"
| "appReducer env state CLEAR_ALL = emptyState"
| "appReducer env state (ADD_FRAME frame) = state"

text \<open>A sequence of dispatches, each with the environment of its reducer call.\<close>

fun runActions :: "AppState \<Rightarrow> (Env \<times> AppAction) list \<Rightarrow> AppState" where
  "runActions state [] = state"
| "runActions state ((env, a) # rest) = runActions (appReducer env state a) rest"

declare appReducer.simps [simp del]

section \<open>hooks/useCanvasInteraction.ts: the bezier branch of handleMouseDown\<close>

text \<open>
  \<open>gen k\<close> is the result of the \<open>k\<close>-th call of \<open>generateId()\<close> in the handler. The
  synthesized control points of the pair \<open>(p0, p3)\<close>:
\<close>

definition control1 :: "string \<Rightarrow> Vertex \<Rightarrow> Vertex \<Rightarrow> Vertex" where
  "control1 newId a b =
     \<lparr> v_id = newId, v_x = v_x a + (v_x b - v_x a) * (33 / 100), v_y = v_y a,
       v_type = Control, v_parentId = Some (v_id a) \<rparr>"

definition control2 :: "string \<Rightarrow> Vertex \<Rightarrow> Vertex \<Rightarrow> Vertex" where
  "control2 newId a b =
     \<lparr> v_id = newId, v_x = v_x a + (v_x b - v_x a) * (66 / 100), v_y = v_y b,
       v_type = Control, v_parentId = Some (v_id b) \<rparr>"

text \<open>
  The \<open>for\<close> loop over the consecutive pairs of \<open>tempVertices\<close>, from index \<open>i\<close> on: the
  dispatched actions and the pushed segments. The last pair is the one with nothing
  after it (\<open>i === tempVertices.length - 2\<close>). \<open>state\<close> is the state the handler closed
  over; it does not change between the dispatches.
\<close>

fun bezierLoop :: "(nat \<Rightarrow> string) \<Rightarrow> AppState \<Rightarrow> nat \<Rightarrow> Vertex list \<Rightarrow> AppAction list \<times> BezierSegment list" where
  "bezierLoop gen state i (a # b # rest) =
     (let c1 = control1 (gen (2 * i)) a b;
          c2 = control2 (gen (2 * i + 1)) a b;
          acts = (if map_of (vertices state) (v_id a) = None then [ADD_VERTEX a] else []) @
                 [ADD_VERTEX c1, ADD_VERTEX c2] @
                 (if rest = [] \<and> map_of (vertices state) (v_id b) = None
                  then [ADD_VERTEX b] else []);
          seg = \<lparr> p0 = v_id a, p1 = v_id c1, p2 = v_id c2, p3 = v_id b \<rparr>;
          (acts', segs') = bezierLoop gen state (i + 1) (b # rest)
      in (acts @ acts', seg # segs'))"
| "bezierLoop gen state i tempVertices = ([], [])"

text \<open>
  The bezier branch: the dispatched actions and the new \<open>tempVertices\<close>. \<open>newVertex\<close> is
  what \<open>getOrCreateVertex\<close> returns for the snapped click point; it is used by the
  \<open>else\<close> branch only.
\<close>

definition handleMouseDown_bezier :: "(nat \<Rightarrow> string) \<Rightarrow> AppState \<Rightarrow> Style \<Rightarrow> Vertex list \<Rightarrow> int \<Rightarrow> Vertex \<Rightarrow> AppAction list \<times> Vertex list" where
  "handleMouseDown_bezier gen state currentStyle tempVertices button newVertex =
     (if button = 2 \<and> length tempVertices \<ge> 2
      then
        let (acts, segs) = bezierLoop gen state 0 tempVertices;
            bezier = \<lparr> s_id = gen (2 * (length tempVertices - 1)),
                       s_kind = Bezier segs False,
                       vertexIds = segmentIds segs,
                       style = currentStyle, visible = True, locked = False,
                       metadata = None \<rparr>
        in (acts @ [ADD_SHAPE bezier], [])
      else ([], tempVertices @ [newVertex]))"

text \<open>The three points are on one line (the cross product vanishes).\<close>

definition collinear3 :: "Vertex \<Rightarrow> Vertex \<Rightarrow> Vertex \<Rightarrow> bool" where
  "collinear3 a b c =
     ((v_x c - v_x a) * (v_y b - v_y a) = (v_y c - v_y a) * (v_x b - v_x a))"

fun isAddShape :: "AppAction \<Rightarrow> bool" where
  "isAddShape (ADD_SHAPE sh) = True"
| "isAddShape a = False"

definition genW :: "nat \<Rightarrow> string" where
  "genW k = ''g'' @ showNat k"

section \<open>types.ts: the export format MeshExport\<close>

text \<open>
  The fields of \<open>MeshExport\<close> that import reads. The open records \<open>properties\<close> and
  \<open>style\<close> (\<open>Record<string, any>\<close>) are records of the optional fields that the code
  reads or writes. Of the metadata block, \<open>boundingBox\<close> and \<open>coordinateSystem\<close> are
  modelled; the display strings, \<open>stats\<close> and \<open>renderingHints\<close> are write-only and left
  out, as is the top-level \<open>timestamp\<close>.
\<close>

record ExVertex =
  ev_id :: string
  ev_position :: "real \<times> real"
  ev_type :: VertexType
  ev_parentId :: "string option"

record ExProperties =
  pr_radius :: "real option"
  pr_segments :: "BezierSegment list option"
  pr_closed :: "bool option"
  pr_metadata :: "json option"

record ExStyle =
  st_color :: "string option"
  st_strokeWidth :: "real option"
  st_fill :: "string option"
  st_opacity :: "real option"
  st_visible :: "bool option"
  st_locked :: "bool option"

record ExShape =
  es_id :: string
  es_type :: string
  es_vertexRefs :: "string list"
  es_properties :: ExProperties
  es_style :: ExStyle

record ExGroup =
  eg_id :: string
  eg_name :: string
  eg_shapeRefs :: "string list"

record ExFrame =
  ef_id :: string
  ef_name :: string
  ef_timestamp :: real
  ef_vertexPositions :: "(string \<times> real \<times> real) list"
  ef_shapeProperties :: "(string \<times> real option) list option"

record ExCoordinateSystem =
  cs_unit :: "string option"
  cs_gridSize :: "real option"

record ExBoundingBox =
  bb_width :: real
  bb_height :: real
  bb_originX :: real
  bb_originY :: real

record ExMetadata =
  md_boundingBox :: "ExBoundingBox option"
  md_coordinateSystem :: "ExCoordinateSystem option"

record MeshExport =
  me_version :: string
  me_vertices :: "ExVertex list"
  me_shapes :: "ExShape list"
  me_groups :: "ExGroup list"
  me_frames :: "ExFrame list option"
  me_metadata :: "ExMetadata option"

section \<open>utils.ts: parseImportData\<close>

record Parsed =
  pd_vertices :: "(string \<times> Vertex) list"
  pd_shapes :: "(string \<times> Shape) list"
  pd_groups :: "(string \<times> ShapeGroup) list"
  pd_frames :: "Frame list"

text \<open>\<open>importData.metadata?.coordinateSystem?.unit === "grid"\<close>\<close>

definition usesGridUnits :: "MeshExport \<Rightarrow> bool" where
  "usesGridUnits importData =
     (case me_metadata importData of
        None \<Rightarrow> False
      | Some md \<Rightarrow> (case md_coordinateSystem md of
                     None \<Rightarrow> False
                   | Some cs \<Rightarrow> cs_unit cs = Some ''grid''))"

text \<open>
  \<open>importData.metadata?.coordinateSystem?.gridSize || gridSize\<close>: a missing or zero
  declared size falls back to the session's.
\<close>

definition importGridSize :: "MeshExport \<Rightarrow> real \<Rightarrow> real" where
  "importGridSize importData gridSize =
     (case me_metadata importData of
        None \<Rightarrow> gridSize
      | Some md \<Rightarrow> (case md_coordinateSystem md of
                     None \<Rightarrow> gridSize
                   | Some cs \<Rightarrow> (case cs_gridSize cs of
                                  None \<Rightarrow> gridSize
                                | Some g \<Rightarrow> if g = 0 then gridSize else g)))"

definition fromGridUnits :: "MeshExport \<Rightarrow> real \<Rightarrow> real \<times> real \<Rightarrow> real \<times> real" where
  "fromGridUnits importData gridSize p =
     (if usesGridUnits importData
      then (fst p * importGridSize importData gridSize, snd p * importGridSize importData gridSize)
      else p)"

definition parseVertex :: "MeshExport \<Rightarrow> real \<Rightarrow> ExVertex \<Rightarrow> Vertex" where
  "parseVertex importData gridSize v =
     (let (x, y) = fromGridUnits importData gridSize (ev_position v)
      in \<lparr> v_id = ev_id v, v_x = x, v_y = y, v_type = ev_type v, v_parentId = ev_parentId v \<rparr>)"

text \<open>
  \<open>s.style.color || "#000000"\<close>, \<open>s.style.strokeWidth || 2\<close>, \<open>s.style.fill\<close>,
  \<open>s.style.opacity ?? 1\<close>: \<open>||\<close> replaces a missing, empty or zero value, \<open>??\<close> a
  missing one.
\<close>

definition parseStyle :: "ExStyle \<Rightarrow> Style" where
  "parseStyle st =
     \<lparr> color = (case st_color st of None \<Rightarrow> ''#000000''
                                     | Some c \<Rightarrow> if c = [] then ''#000000'' else c),
       strokeWidth = (case st_strokeWidth st of None \<Rightarrow> 2 | Some w \<Rightarrow> if w = 0 then 2 else w),
       fill = st_fill st,
       opacity = Some (case st_opacity st of None \<Rightarrow> 1 | Some a \<Rightarrow> a) \<rparr>"

text \<open>
  The \<open>switch (s.type)\<close>: the variant part and the \<open>vertexIds\<close> of the shape, \<open>None\<close> for
  an unknown type (the shape is skipped with a warning). A circle keeps
  \<open>[s.vertexRefs[0]]\<close>; the type \<open>CircleShape\<close> has exactly one vertex id, and for an
  empty \<open>vertexRefs\<close> (where JavaScript builds \<open>[undefined]\<close>) the model keeps no id.
\<close>

definition parseKind :: "MeshExport \<Rightarrow> real \<Rightarrow> ExShape \<Rightarrow> (ShapeKind \<times> string list) option" where
  "parseKind importData gridSize s =
     (if es_type s = ''line'' then Some (Line, es_vertexRefs s)
      else if es_type s = ''rect'' then Some (Rect, es_vertexRefs s)
      else if es_type s = ''circle'' then
        (let radius = (case pr_radius (es_properties s) of
                         None \<Rightarrow> 50 | Some r \<Rightarrow> if r = 0 then 50 else r)
         in Some (Circle (if usesGridUnits importData
                          then radius * importGridSize importData gridSize else radius),
                  take 1 (es_vertexRefs s)))
      else if es_type s = ''bezier'' then
        Some (Bezier (case pr_segments (es_properties s) of None \<Rightarrow> [] | Some segs \<Rightarrow> segs)
                     (case pr_closed (es_properties s) of None \<Rightarrow> False | Some c \<Rightarrow> c),
              es_vertexRefs s)
      else if es_type s = ''polygon'' then
        Some (Polygon (case pr_closed (es_properties s) of None \<Rightarrow> True | Some c \<Rightarrow> c),
              es_vertexRefs s)
      else None)"

definition parseShape :: "MeshExport \<Rightarrow> real \<Rightarrow> ExShape \<Rightarrow> Shape option" where
  "parseShape importData gridSize s =
     (case parseKind importData gridSize s of
        None \<Rightarrow> None
      | Some (k, vids) \<Rightarrow>
          Some \<lparr> s_id = es_id s, s_kind = k, vertexIds = vids,
                 style = parseStyle (es_style s),
                 visible = (case st_visible (es_style s) of None \<Rightarrow> True | Some b \<Rightarrow> b),
                 locked = (case st_locked (es_style s) of None \<Rightarrow> False | Some b \<Rightarrow> b),
                 metadata = pr_metadata (es_properties s) \<rparr>)"

definition parseGroup :: "ExGroup \<Rightarrow> ShapeGroup" where
  "parseGroup g = \<lparr> g_id = eg_id g, g_name = eg_name g, shapeIds = eg_shapeRefs g, g_locked = False \<rparr>"

definition parseFrame :: "MeshExport \<Rightarrow> real \<Rightarrow> ExFrame \<Rightarrow> Frame" where
  "parseFrame importData gridSize f =
     \<lparr> f_id = ef_id f, f_name = ef_name f,
       f_vertices =
         fold (\<lambda>(vertexId, position) m.
                 let (x, y) = fromGridUnits importData gridSize position
                 in AList.update vertexId \<lparr> pos_x = x, pos_y = y \<rparr> m)
           (ef_vertexPositions f) [],
       shapeProperties =
         (case ef_shapeProperties f of
            None \<Rightarrow> []
          | Some sps \<Rightarrow>
              fold (\<lambda>(shapeId, radius) m.
                      AList.update shapeId
                        (case radius of
                           None \<Rightarrow> None
                         | Some r \<Rightarrow> Some (if usesGridUnits importData
                                           then r * importGridSize importData gridSize else r))
                        m)
                sps []),
       f_timestamp = ef_timestamp f \<rparr>"

definition parseImportData :: "MeshExport \<Rightarrow> real \<Rightarrow> Parsed" where
  "parseImportData importData gridSize =
     \<lparr> pd_vertices =
         fold (\<lambda>v m. AList.update (ev_id v) (parseVertex importData gridSize v) m)
           (me_vertices importData) [],
       pd_shapes =
         fold (\<lambda>s m. case parseShape importData gridSize s of
                        None \<Rightarrow> m
                      | Some shape \<Rightarrow> AList.update (s_id shape) shape m)
           (me_shapes importData) [],
       pd_groups =
         fold (\<lambda>g m. AList.update (eg_id g) (parseGroup g) m) (me_groups importData) [],
       pd_frames =
         (case me_frames importData of
            None \<Rightarrow> []
          | Some fs \<Rightarrow> map (parseFrame importData gridSize) fs) \<rparr>"

section \<open>utils.ts: validateImportData\<close>

text \<open>
  The argument of \<open>validateImportData\<close> is whatever \<open>JSON.parse\<close> returned: a value of
  type \<open>json\<close>, an object being the list of its properties (each key once). \<open>undefined\<close>,
  the result of reading a missing property, is \<open>None\<close>.
\<close>

datatype js_error = SyntaxError | TypeError | InvalidFormat

text \<open>\<open>!x\<close> is false for the truthy values.\<close>

fun truthy :: "json \<Rightarrow> bool" where
  "truthy JNull = False"
| "truthy (JBool b) = b"
| "truthy (JNum n) = (n \<noteq> 0)"
| "truthy (JStr s) = (s \<noteq> [])"
| "truthy (JArr xs) = True"
| "truthy (JObj kvs) = True"

definition truthyOpt :: "json option \<Rightarrow> bool" where
  "truthyOpt x = (case x of None \<Rightarrow> False | Some v \<Rightarrow> truthy v)"

text \<open>\<open>Array.isArray(x)\<close>\<close>

fun isArray :: "json option \<Rightarrow> bool" where
  "isArray (Some (JArr xs)) = True"
| "isArray x = False"

fun elems :: "json option \<Rightarrow> json list" where
  "elems (Some (JArr xs)) = xs"
| "elems x = []"

text \<open>
  \<open>x.name\<close> for a value \<open>x\<close> other than \<open>null\<close> and one of the property names the code
  reads (none of them is inherited from a prototype, \<open>length\<close> apart). Reading a property
  of \<open>null\<close> throws a TypeError; the callers below test for \<open>null\<close> first.
\<close>

fun jsProp :: "json \<Rightarrow> string \<Rightarrow> json option" where
  "jsProp (JObj kvs) n = map_of kvs n"
| "jsProp (JArr xs) n = (if n = ''length'' then Some (JNum (real (length xs))) else None)"
| "jsProp (JStr s) n = (if n = ''length'' then Some (JNum (real (length s))) else None)"
| "jsProp x n = None"

text \<open>
  \<open>!data.version?.startsWith("2.")\<close>: whether the warning is logged. The optional chain
  stops at a missing or \<open>null\<close> version; any other value that is not a string has no
  method \<open>startsWith\<close>, and the call throws a TypeError.
\<close>

fun versionWarned :: "json option \<Rightarrow> js_error + bool" where
  "versionWarned None = Inr True"
| "versionWarned (Some JNull) = Inr True"
| "versionWarned (Some (JStr s)) = Inr (take 2 s \<noteq> ''2.'')"
| "versionWarned (Some v) = Inl TypeError"

text \<open>The bodies of the three \<open>for\<close> loops: \<open>False\<close> where the loop returns false.\<close>

fun vertexValid :: "json \<Rightarrow> js_error + bool" where
  "vertexValid JNull = Inl TypeError"
| "vertexValid vertex =
     Inr (\<not> (\<not> truthyOpt (jsProp vertex ''id'') \<or> \<not> isArray (jsProp vertex ''position'') \<or>
              length (elems (jsProp vertex ''position'')) \<noteq> 2) \<and>
          \<not> (jsProp vertex ''type'' \<noteq> Some (JStr ''anchor'') \<and>
              jsProp vertex ''type'' \<noteq> Some (JStr ''control'')))"

fun shapeValid :: "json \<Rightarrow> js_error + bool" where
  "shapeValid JNull = Inl TypeError"
| "shapeValid shape =
     Inr (\<not> (\<not> truthyOpt (jsProp shape ''id'') \<or> \<not> truthyOpt (jsProp shape ''type'') \<or>
              \<not> isArray (jsProp shape ''vertexRefs'')))"

fun frameValid :: "json \<Rightarrow> js_error + bool" where
  "frameValid JNull = Inl TypeError"
| "frameValid frame =
     Inr (\<not> (\<not> truthyOpt (jsProp frame ''id'') \<or> \<not> truthyOpt (jsProp frame ''name'') \<or>
              \<not> isArray (jsProp frame ''vertexPositions'')))"

text \<open>A \<open>for ... of\<close> loop that returns false at the first element that fails.\<close>

fun allValid :: "(json \<Rightarrow> js_error + bool) \<Rightarrow> json list \<Rightarrow> js_error + bool" where
  "allValid f [] = Inr True"
| "allValid f (x # xs) =
     (case f x of
        Inl e \<Rightarrow> Inl e
      | Inr ok \<Rightarrow> if ok then allValid f xs else Inr False)"

text \<open>
  The result is \<open>Inl\<close> of the error thrown, or \<open>Inr (warned, valid)\<close>: whether the version
  warning was logged, and the boolean returned.
\<close>

definition validateImportData :: "json \<Rightarrow> js_error + bool \<times> bool" where
  "validateImportData data =
     (if \<not> truthy data \<or> \<not> (case data of JObj _ \<Rightarrow> True | JArr _ \<Rightarrow> True | _ \<Rightarrow> False)
      then Inr (False, False)
      else
        case versionWarned (jsProp data ''version'') of
          Inl e \<Rightarrow> Inl e
        | Inr warned \<Rightarrow>
            if \<not> isArray (jsProp data ''vertices'') then Inr (warned, False)
            else if \<not> isArray (jsProp data ''shapes'') then Inr (warned, False)
            else if \<not> isArray (jsProp data ''groups'') then Inr (warned, False)
            else
              case allValid vertexValid (elems (jsProp data ''vertices'')) of
                Inl e \<Rightarrow> Inl e
              | Inr vok \<Rightarrow>
                  if \<not> vok then Inr (warned, False)
                  else
                    case allValid shapeValid (elems (jsProp data ''shapes'')) of
                      Inl e \<Rightarrow> Inl e
                    | Inr sok \<Rightarrow>
                        if \<not> sok then Inr (warned, False)
                        else if truthyOpt (jsProp data ''frames'') then
                          (if \<not> isArray (jsProp data ''frames'') then Inr (warned, False)
                           else
                             case allValid frameValid (elems (jsProp data ''frames'')) of
                               Inl e \<Rightarrow> Inl e
                             | Inr fok \<Rightarrow> Inr (warned, fok))
                        else Inr (warned, True))"

section \<open>The validated data seen at type MeshExport\<close>

text \<open>
  After \<open>validateImportData\<close> has returned true, TypeScript takes the data to be a
  \<open>MeshExport\<close>. \<open>asMeshExport\<close> reads a \<open>json\<close> value at that type, and is \<open>None\<close> for a
  value that is not of that type (a number where a string is declared, and so on): what
  \<open>parseImportData\<close> does with such a value is outside this model.
\<close>

fun asStr :: "json option \<Rightarrow> string option" where
  "asStr (Some (JStr s)) = Some s"
| "asStr x = None"

fun asNum :: "json option \<Rightarrow> real option" where
  "asNum (Some (JNum n)) = Some n"
| "asNum x = None"

fun asBool :: "json option \<Rightarrow> bool option" where
  "asBool (Some (JBool b)) = Some b"
| "asBool x = None"

fun asObj :: "json option \<Rightarrow> json option" where
  "asObj (Some (JObj kvs)) = Some (JObj kvs)"
| "asObj x = None"

fun asArr :: "json option \<Rightarrow> json list option" where
  "asArr (Some (JArr xs)) = Some xs"
| "asArr x = None"

text \<open>An optional field: absent, or present at the declared type.\<close>

definition optField :: "(json option \<Rightarrow> 'a option) \<Rightarrow> json option \<Rightarrow> 'a option option" where
  "optField dec x = (case x of None \<Rightarrow> Some None | Some v \<Rightarrow> map_option Some (dec (Some v)))"

definition asList :: "(json \<Rightarrow> 'a option) \<Rightarrow> json option \<Rightarrow> 'a list option" where
  "asList dec x = (case asArr x of None \<Rightarrow> None | Some xs \<Rightarrow> those (map dec xs))"

fun asPosition :: "json option \<Rightarrow> (real \<times> real) option" where
  "asPosition (Some (JArr [JNum a, JNum b])) = Some (a, b)"
| "asPosition x = None"

fun asVertexType :: "json option \<Rightarrow> VertexType option" where
  "asVertexType (Some (JStr s)) =
     (if s = ''anchor'' then Some Anchor else if s = ''control'' then Some Control else None)"
| "asVertexType x = None"

definition asExVertex :: "json \<Rightarrow> ExVertex option" where
  "asExVertex v =
     (case (asStr (jsProp v ''id''), asPosition (jsProp v ''position''), asVertexType (jsProp v ''type''),
            optField asStr (jsProp v ''parentId'')) of
        (Some i, Some pos, Some t, Some par) \<Rightarrow>
          Some \<lparr> ev_id = i, ev_position = pos, ev_type = t, ev_parentId = par \<rparr>
      | _ \<Rightarrow> None)"

definition asSegment :: "json \<Rightarrow> BezierSegment option" where
  "asSegment s =
     (case (asStr (jsProp s ''p0''), asStr (jsProp s ''p1''), asStr (jsProp s ''p2''), asStr (jsProp s ''p3'')) of
        (Some a, Some b, Some c, Some d) \<Rightarrow> Some \<lparr> p0 = a, p1 = b, p2 = c, p3 = d \<rparr>
      | _ \<Rightarrow> None)"

definition asExProperties :: "json option \<Rightarrow> ExProperties option" where
  "asExProperties x =
     (case asObj x of
        None \<Rightarrow> None
      | Some pr \<Rightarrow>
          (case (optField asNum (jsProp pr ''radius''), optField (asList asSegment) (jsProp pr ''segments''),
                 optField asBool (jsProp pr ''closed'')) of
             (Some r, Some segs, Some c) \<Rightarrow>
               Some \<lparr> pr_radius = r, pr_segments = segs, pr_closed = c,
                      pr_metadata = jsProp pr ''metadata'' \<rparr>
           | _ \<Rightarrow> None))"

definition asExStyle :: "json option \<Rightarrow> ExStyle option" where
  "asExStyle x =
     (case asObj x of
        None \<Rightarrow> None
      | Some st \<Rightarrow>
          (case (optField asStr (jsProp st ''color''), optField asNum (jsProp st ''strokeWidth''),
                 optField asStr (jsProp st ''fill''), optField asNum (jsProp st ''opacity''),
                 optField asBool (jsProp st ''visible''), optField asBool (jsProp st ''locked'')) of
             (Some c, Some w, Some f, Some a, Some v, Some l) \<Rightarrow>
               Some \<lparr> st_color = c, st_strokeWidth = w, st_fill = f, st_opacity = a,
                      st_visible = v, st_locked = l \<rparr>
           | _ \<Rightarrow> None))"

definition asExShape :: "json \<Rightarrow> ExShape option" where
  "asExShape s =
     (case (asStr (jsProp s ''id''), asStr (jsProp s ''type''),
            asList (\<lambda>r. asStr (Some r)) (jsProp s ''vertexRefs''),
            asExProperties (jsProp s ''properties''), asExStyle (jsProp s ''style'')) of
        (Some i, Some t, Some refs, Some pr, Some st) \<Rightarrow>
          Some \<lparr> es_id = i, es_type = t, es_vertexRefs = refs, es_properties = pr, es_style = st \<rparr>
      | _ \<Rightarrow> None)"

definition asExGroup :: "json \<Rightarrow> ExGroup option" where
  "asExGroup g =
     (case (asStr (jsProp g ''id''), asStr (jsProp g ''name''),
            asList (\<lambda>r. asStr (Some r)) (jsProp g ''shapeRefs'')) of
        (Some i, Some n, Some refs) \<Rightarrow> Some \<lparr> eg_id = i, eg_name = n, eg_shapeRefs = refs \<rparr>
      | _ \<Rightarrow> None)"

definition asVertexPosition :: "json \<Rightarrow> (string \<times> real \<times> real) option" where
  "asVertexPosition vp =
     (case (asStr (jsProp vp ''vertexId''), asPosition (jsProp vp ''position'')) of
        (Some i, Some pos) \<Rightarrow> Some (i, pos)
      | _ \<Rightarrow> None)"

definition asShapeProperty :: "json \<Rightarrow> (string \<times> real option) option" where
  "asShapeProperty sp =
     (case (asStr (jsProp sp ''shapeId''), asObj (jsProp sp ''properties'')) of
        (Some i, Some pr) \<Rightarrow> map_option (\<lambda>r. (i, r)) (optField asNum (jsProp pr ''radius''))
      | _ \<Rightarrow> None)"

definition asExFrame :: "json \<Rightarrow> ExFrame option" where
  "asExFrame f =
     (case (asStr (jsProp f ''id''), asStr (jsProp f ''name''), asNum (jsProp f ''timestamp''),
            asList asVertexPosition (jsProp f ''vertexPositions''),
            optField (asList asShapeProperty) (jsProp f ''shapeProperties'')) of
        (Some i, Some n, Some t, Some vps, Some sps) \<Rightarrow>
          Some \<lparr> ef_id = i, ef_name = n, ef_timestamp = t, ef_vertexPositions = vps,
                 ef_shapeProperties = sps \<rparr>
      | _ \<Rightarrow> None)"

definition asExCoordinateSystem :: "json option \<Rightarrow> ExCoordinateSystem option" where
  "asExCoordinateSystem x =
     (case asObj x of
        None \<Rightarrow> None
      | Some cs \<Rightarrow>
          (case (optField asStr (jsProp cs ''unit''), optField asNum (jsProp cs ''gridSize'')) of
             (Some u, Some g) \<Rightarrow> Some \<lparr> cs_unit = u, cs_gridSize = g \<rparr>
           | _ \<Rightarrow> None))"

definition asExBoundingBox :: "json option \<Rightarrow> ExBoundingBox option" where
  "asExBoundingBox x =
     (case asObj x of
        None \<Rightarrow> None
      | Some bb \<Rightarrow>
          (case asObj (jsProp bb ''originalOrigin'') of
             None \<Rightarrow> None
           | Some oo \<Rightarrow>
               (case (asNum (jsProp bb ''width''), asNum (jsProp bb ''height''),
                      asNum (jsProp oo ''x''), asNum (jsProp oo ''y'')) of
                  (Some w, Some h, Some ox, Some oy) \<Rightarrow>
                    Some \<lparr> bb_width = w, bb_height = h, bb_originX = ox, bb_originY = oy \<rparr>
                | _ \<Rightarrow> None)))"

definition asExMetadata :: "json option \<Rightarrow> ExMetadata option" where
  "asExMetadata x =
     (case asObj x of
        None \<Rightarrow> None
      | Some md \<Rightarrow>
          (case (optField asExBoundingBox (jsProp md ''boundingBox''),
                 optField asExCoordinateSystem (jsProp md ''coordinateSystem'')) of
             (Some bb, Some cs) \<Rightarrow> Some \<lparr> md_boundingBox = bb, md_coordinateSystem = cs \<rparr>
           | _ \<Rightarrow> None))"

text \<open>
  The version is validated before this point and not read after it: a version that is
  not a string is seen as the empty string.
\<close>

definition asMeshExport :: "json \<Rightarrow> MeshExport option" where
  "asMeshExport data =
     (case (asList asExVertex (jsProp data ''vertices''), asList asExShape (jsProp data ''shapes''),
            asList asExGroup (jsProp data ''groups''),
            optField (asList asExFrame) (jsProp data ''frames''),
            optField asExMetadata (jsProp data ''metadata'')) of
        (Some vs, Some ss, Some gs, Some fs, Some md) \<Rightarrow>
          Some \<lparr> me_version = (case asStr (jsProp data ''version'') of None \<Rightarrow> [] | Some s \<Rightarrow> s),
                 me_vertices = vs, me_shapes = ss, me_groups = gs, me_frames = fs,
                 me_metadata = md \<rparr>
      | _ \<Rightarrow> None)"

section \<open>hooks/useImportExport.ts: importFromJSON\<close>

text \<open>
  What one call of \<open>importFromJSON\<close> does: it reports an error and dispatches nothing
  (\<open>ImportFailed\<close>, with what was thrown inside the \<open>try\<close>), or it dispatches one
  IMPORT_DATA action (\<open>ImportDispatch\<close>). \<open>ImportUntyped\<close> marks data that passed the
  validation and is not a \<open>MeshExport\<close>. The argument \<open>parsed\<close> is the result of
  \<open>JSON.parse\<close>, \<open>None\<close> when it throws; \<open>confirmMerge\<close> is the answer to
  \<open>window.confirm\<close>, asked only when the document has content.
\<close>

datatype ImportOutcome =
    ImportFailed js_error
  | ImportDispatch AppAction
  | ImportUntyped

definition importAction :: "AppState \<Rightarrow> bool \<Rightarrow> Parsed \<Rightarrow> AppAction" where
  "importAction state confirmMerge p =
     (let shouldMerge = (vertices state \<noteq> [] \<or> shapes state \<noteq> [])
      in if shouldMerge \<and> confirmMerge
         then IMPORT_DATA
                (fold (\<lambda>(i, v) m. AList.update i v m) (pd_vertices p) (vertices state))
                (fold (\<lambda>(i, s) m. AList.update i s m) (pd_shapes p) (shapes state))
                (fold (\<lambda>(i, g) m. AList.update i g m) (pd_groups p) (groups state))
                (Some (frames state @ pd_frames p))
         else IMPORT_DATA (pd_vertices p) (pd_shapes p) (pd_groups p) (Some (pd_frames p)))"

definition importFromJSON :: "AppState \<Rightarrow> real \<Rightarrow> bool \<Rightarrow> json option \<Rightarrow> ImportOutcome" where
  "importFromJSON state gridSize confirmMerge parsed =
     (case parsed of
        None \<Rightarrow> ImportFailed SyntaxError
      | Some data \<Rightarrow>
          (case validateImportData data of
             Inl e \<Rightarrow> ImportFailed e
           | Inr (warned, valid) \<Rightarrow>
               if \<not> valid then ImportFailed InvalidFormat
               else
                 case asMeshExport data of
                   None \<Rightarrow> ImportUntyped
                 | Some importData \<Rightarrow>
                     ImportDispatch
                       (importAction state confirmMerge (parseImportData importData gridSize))))"

text \<open>
  The document after the call: the reducer applied to the dispatched action, the
  document itself when nothing is dispatched, and \<open>None\<close> outside the model.
\<close>

definition documentAfterImport :: "Env \<Rightarrow> AppState \<Rightarrow> real \<Rightarrow> bool \<Rightarrow> json option \<Rightarrow> AppState option" where
  "documentAfterImport env state gridSize confirmMerge parsed =
     (case importFromJSON state gridSize confirmMerge parsed of
        ImportFailed e \<Rightarrow> Some state
      | ImportDispatch a \<Rightarrow> Some (appReducer env state a)
      | ImportUntyped \<Rightarrow> None)"

section \<open>hooks/useImportExport.ts: exportToJSON\<close>




















section \<open>Notions used to state the properties\<close>




text \<open>
  A bezier lists its segments when its \<open>vertexIds\<close> are the ids \<open>p0, p1, p2, p3\<close> of
  its segments in order, as the bezier tool and MERGE_VERTICES build it.
\<close>

definition bezierConsistent :: "Shape \<Rightarrow> bool" where
  "bezierConsistent sh =
     (case s_kind sh of
        Bezier segs c \<Rightarrow> vertexIds sh = segmentIds segs
      | _ \<Rightarrow> True)"

text \<open>
  The vertex ids a shape refers to: its \<open>vertexIds\<close> and, for a bezier, the fields of
  its segments.
\<close>

definition referenced :: "Shape \<Rightarrow> string set" where
  "referenced sh =
     set (vertexIds sh) \<union>
     (case s_kind sh of Bezier segs c \<Rightarrow> set (segmentIds segs) | _ \<Rightarrow> {})"

text \<open>
  A shape fits a vertex map when its \<open>vertexIds\<close> are keys of the map and, if it is a
  bezier, it lists its segments. A document fits when every shape does and the shape map
  has each key once. Integrity of a state: the live document and every snapshot of the
  undo history fit.
\<close>

definition shapeOk :: "(string \<times> Vertex) list \<Rightarrow> Shape \<Rightarrow> bool" where
  "shapeOk vs sh = (set (vertexIds sh) \<subseteq> fst ` set vs \<and> bezierConsistent sh)"

definition docOk :: "(string \<times> Vertex) list \<Rightarrow> (string \<times> Shape) list \<Rightarrow> bool" where
  "docOk vs ss = (list_all (\<lambda>(k, sh). shapeOk vs sh) ss \<and> distinct (map fst ss))"

definition integrity :: "AppState \<Rightarrow> bool" where
  "integrity s =
     (docOk (vertices s) (shapes s) \<and>
      list_all (\<lambda>h. docOk (snap_vertices h) (snap_shapes h))
        (past (history s) @ future (history s)))"




text \<open>What MERGE_VERTICES does to one vertex reference.\<close>

definition renameId :: "string set \<Rightarrow> string \<Rightarrow> string \<Rightarrow> string" where
  "renameId merged new v = (if v \<in> merged then new else v)"

text \<open>
  The factor by which import multiplies the positions of a document: the declared grid
  size for a document that declares the unit \<open>grid\<close> (the session's grid size when the
  declared size is missing or zero), and 1 (no conversion) for every other document.
\<close>

definition importScale :: "MeshExport \<Rightarrow> real \<Rightarrow> real" where
  "importScale importData sessionGridSize =
     (case me_metadata importData of
        None \<Rightarrow> 1
      | Some md \<Rightarrow>
          (case md_coordinateSystem md of
             None \<Rightarrow> 1
           | Some cs \<Rightarrow>
               if cs_unit cs = Some ''grid''
               then (case cs_gridSize cs of
                       None \<Rightarrow> sessionGridSize
                     | Some d \<Rightarrow> if d = 0 then sessionGridSize else d)
               else 1))"



text \<open>
  The required fields of an import document: a vertex has an id, a 2-element position
  and a type that is \<open>anchor\<close> or \<open>control\<close>; a shape has an id, a type and an array
  \<open>vertexRefs\<close>; the document has the arrays \<open>vertices\<close>, \<open>shapes\<close> and \<open>groups\<close>.
\<close>

fun isPair :: "json option \<Rightarrow> bool" where
  "isPair (Some (JArr [a, b])) = True"
| "isPair x = False"

definition vertexWellFormed :: "json \<Rightarrow> bool" where
  "vertexWellFormed v =
     (v \<noteq> JNull \<and> truthyOpt (jsProp v ''id'') \<and> isPair (jsProp v ''position'') \<and>
      (jsProp v ''type'' = Some (JStr ''anchor'') \<or> jsProp v ''type'' = Some (JStr ''control'')))"

definition shapeWellFormed :: "json \<Rightarrow> bool" where
  "shapeWellFormed s =
     (s \<noteq> JNull \<and> truthyOpt (jsProp s ''id'') \<and> truthyOpt (jsProp s ''type'') \<and>
      isArray (jsProp s ''vertexRefs''))"

definition requiredFields :: "json \<Rightarrow> bool" where
  "requiredFields data =
     (isArray (jsProp data ''vertices'') \<and> isArray (jsProp data ''shapes'') \<and>
      isArray (jsProp data ''groups'') \<and>
      list_all vertexWellFormed (elems (jsProp data ''vertices'')) \<and>
      list_all shapeWellFormed (elems (jsProp data ''shapes'')))"

section \<open>Concrete documents used as witnesses\<close>

definition env0 :: Env where
  "env0 = \<lparr> genId = ''g1'', now = 0 \<rparr>"

definition vtx :: "string \<Rightarrow> real \<Rightarrow> real \<Rightarrow> Vertex" where
  "vtx i a b = \<lparr> v_id = i, v_x = a, v_y = b, v_type = Anchor, v_parentId = None \<rparr>"

definition frame0 :: Frame where
  "frame0 = \<lparr> f_id = ''f0'', f_name = ''Frame 1'', f_vertices = [], shapeProperties = [],
              f_timestamp = 0 \<rparr>"



definition style0 :: Style where
  "style0 = \<lparr> color = ''#000000'', strokeWidth = 2, fill = Some '''', opacity = Some 1 \<rparr>"

definition mkShape :: "string \<Rightarrow> ShapeKind \<Rightarrow> string list \<Rightarrow> Shape" where
  "mkShape i k vs =
     \<lparr> s_id = i, s_kind = k, vertexIds = vs, style = style0, visible = True, locked = False,
       metadata = None \<rparr>"




text \<open>
  Two anchors joined by a line, with a circle centred at the second anchor.
\<close>

definition lineL :: Shape where
  "lineL = mkShape ''L'' Line [''a'', ''b'']"


text \<open>
  A one-segment bezier as the bezier tool builds it: anchors \<open>a\<close>, \<open>b\<close>, control points
  \<open>c1\<close>, \<open>c2\<close>, and \<open>vertexIds\<close> the flattened segment.
\<close>

definition seg0 :: BezierSegment where
  "seg0 = \<lparr> p0 = ''a'', p1 = ''c1'', p2 = ''c2'', p3 = ''b'' \<rparr>"

definition bezShape :: Shape where
  "bezShape = mkShape ''bz'' (Bezier [seg0] False) [''a'', ''c1'', ''c2'', ''b'']"

definition bezDoc :: AppState where
  "bezDoc = emptyState
     \<lparr> vertices := [(''a'', vtx ''a'' 0 0),
                    (''c1'', \<lparr> v_id = ''c1'', v_x = 33, v_y = 0, v_type = Control,
                               v_parentId = Some ''a'' \<rparr>),
                    (''c2'', \<lparr> v_id = ''c2'', v_x = 66, v_y = 100, v_type = Control,
                               v_parentId = Some ''b'' \<rparr>),
                    (''b'', vtx ''b'' 100 100)],
       shapes := [(''bz'', bezShape)] \<rparr>"

text \<open>
  A bezier whose \<open>vertexIds\<close> are not the ids of its segments, as \<open>parseImportData\<close>
  builds it from a shape entry with \<open>vertexRefs\<close> and no \<open>properties.segments\<close>.
\<close>

definition looseBez :: Shape where
  "looseBez = mkShape ''bz'' (Bezier [] False) [''a'', ''b'']"

text \<open>Two pending anchors that differ in both coordinates.\<close>

definition tvW :: "Vertex list" where
  "tvW = [vtx ''a'' 0 0, vtx ''b'' 100 100]"

text \<open>
  A one-vertex export document without metadata, and the same document declaring grid
  units of size 10.
\<close>

definition meNoMeta :: MeshExport where
  "meNoMeta =
     \<lparr> me_version = ''2.1.0'',
       me_vertices = [\<lparr> ev_id = ''a'', ev_position = (1, 2), ev_type = Anchor,
                        ev_parentId = None \<rparr>],
       me_shapes = [], me_groups = [], me_frames = None, me_metadata = None \<rparr>"

definition meGrid :: MeshExport where
  "meGrid = meNoMeta
     \<lparr> me_metadata :=
         Some \<lparr> md_boundingBox = None,
                md_coordinateSystem = Some \<lparr> cs_unit = Some ''grid'', cs_gridSize = Some 10 \<rparr> \<rparr> \<rparr>"


text \<open>
  A parsed import document with one vertex and no version, and the same document with
  a version: the field comes first, as \<open>JSON.parse\<close> lists the properties.
\<close>

definition docBody :: "(string \<times> json) list" where
  "docBody =
     [(''vertices'', JArr [JObj [(''id'', JStr ''a''), (''position'', JArr [JNum 1, JNum 2]),
                                  (''type'', JStr ''anchor'')]]),
      (''shapes'', JArr []),
      (''groups'', JArr [])]"

definition docWithVersion :: "json \<Rightarrow> json" where
  "docWithVersion v = JObj ((''version'', v) # docBody)"


text \<open>
  A bezier that names its end points alone in \<open>vertexIds\<close>, and the dispatches that
  draw it and then delete its first control point.
\<close>

definition halfBez :: Shape where
  "halfBez = mkShape ''bz'' (Bezier [seg0] False) [''a'', ''b'']"

definition buildHalfBezier :: "(Env \<times> AppAction) list" where
  "buildHalfBezier =
     map (\<lambda>(k, v). (env0, ADD_VERTEX v)) (vertices bezDoc) @
     [(env0, ADD_SHAPE halfBez), (env0, DELETE_VERTEX ''c1'')]"

text \<open>
  An import file with a bezier entry that has no \<open>properties.segments\<close> and a line over
  the same two vertices, the same file at type \<open>MeshExport\<close>, the document after its
  import into the empty document, and the document after the merge of the two vertices.
\<close>

definition styleJson :: json where
  "styleJson = JObj [(''color'', JStr ''#000000''), (''strokeWidth'', JNum 2),
                     (''fill'', JStr []), (''opacity'', JNum 1)]"

definition looseBezJson :: json where
  "looseBezJson =
     JObj [(''version'', JStr ''2.1.0''),
           (''vertices'',
              JArr [JObj [(''id'', JStr ''a''), (''position'', JArr [JNum 0, JNum 0]),
                          (''type'', JStr ''anchor'')],
                    JObj [(''id'', JStr ''b''), (''position'', JArr [JNum 100, JNum 0]),
                          (''type'', JStr ''anchor'')]]),
           (''shapes'',
              JArr [JObj [(''id'', JStr ''bz''), (''type'', JStr ''bezier''),
                          (''vertexRefs'', JArr [JStr ''a'', JStr ''b'']),
                          (''properties'', JObj []), (''style'', styleJson)],
                    JObj [(''id'', JStr ''L''), (''type'', JStr ''line''),
                          (''vertexRefs'', JArr [JStr ''a'', JStr ''b'']),
                          (''properties'', JObj []), (''style'', styleJson)]]),
           (''groups'', JArr [])]"

definition importedLooseDoc :: AppState where
  "importedLooseDoc =
     appReducer env0 emptyState
       (IMPORT_DATA [(''a'', vtx ''a'' 0 0), (''b'', vtx ''b'' 100 0)]
          [(''bz'', looseBez), (''L'', lineL)] [] (Some []))"

definition mergedLooseDoc :: AppState where
  "mergedLooseDoc =
     appReducer env0 importedLooseDoc (MERGE_VERTICES [''a'', ''b''] \<lparr> pos_x = 50, pos_y = 0 \<rparr>)"

definition looseMesh :: MeshExport where
 "looseMesh = 
   \<lparr> me_version = ''2.1.0'',
     me_vertices = [\<lparr> ev_id = ''a'', ev_position = (0, 0), ev_type = Anchor, ev_parentId = None \<rparr>,
                    \<lparr> ev_id = ''b'', ev_position = (100, 0), ev_type = Anchor, ev_parentId = None \<rparr>],
     me_shapes = [\<lparr> es_id = ''bz'', es_type = ''bezier'', es_vertexRefs = [''a'', ''b''],
                    es_properties = \<lparr> pr_radius = None, pr_segments = None, pr_closed = None,
                                      pr_metadata = None \<rparr>,
                    es_style = \<lparr> st_color = Some ''#000000'', st_strokeWidth = Some 2,
                                 st_fill = Some [], st_opacity = Some 1, st_visible = None,
                                 st_locked = None \<rparr> \<rparr>,
                  \<lparr> es_id = ''L'', es_type = ''line'', es_vertexRefs = [''a'', ''b''],
                    es_properties = \<lparr> pr_radius = None, pr_segments = None, pr_closed = None,
                                      pr_metadata = None \<rparr>,
                    es_style = \<lparr> st_color = Some ''#000000'', st_strokeWidth = Some 2,
                                 st_fill = Some [], st_opacity = Some 1, st_visible = None,
                                 st_locked = None \<rparr> \<rparr>],
     me_groups = [], me_frames = None, me_metadata = None \<rparr>"


section \<open>Lists and association lists\<close>

lemma update_in_place:
  "k \<notin> fst ` set ys \<Longrightarrow> AList.update k v' (ys @ (k, v) # zs) = ys @ (k, v') # zs"
  by (induction ys) auto

lemma fold_update_visited_gen:
  "distinct (map fst (ys @ zs)) \<Longrightarrow>
   fold (\<lambda>(k, v) m. case g k v of None \<Rightarrow> m | Some v' \<Rightarrow> AList.update k v' m) zs (ys @ zs)
     = ys @ map (\<lambda>(k, v). (k, case g k v of None \<Rightarrow> v | Some v' \<Rightarrow> v')) zs"
proof (induction zs arbitrary: ys)
  case Nil
  then show ?case by simp
next
  case (Cons z zs)
  obtain k v where z: "z = (k, v)" by (cases z)
  let ?h = "case g k v of None \<Rightarrow> v | Some v' \<Rightarrow> v'"
  have notin: "k \<notin> fst ` set ys" using Cons.prems z by auto
  have step: "(case g k v of None \<Rightarrow> ys @ (k, v) # zs
               | Some v' \<Rightarrow> AList.update k v' (ys @ (k, v) # zs)) = (ys @ [(k, ?h)]) @ zs"
    using notin by (simp add: update_in_place split: option.split)
  have d: "distinct (map fst ((ys @ [(k, ?h)]) @ zs))" using Cons.prems z by auto
  show ?case
    using Cons.IH [OF d] step z by simp
qed

lemma fold_update_visited:
  "distinct (map fst xs) \<Longrightarrow>
   fold (\<lambda>(k, v) m. case g k v of None \<Rightarrow> m | Some v' \<Rightarrow> AList.update k v' m) xs xs
     = map (\<lambda>(k, v). (k, case g k v of None \<Rightarrow> v | Some v' \<Rightarrow> v')) xs"
  using fold_update_visited_gen [of "[]" xs g] by simp



section \<open>DELETE_FRAME and the current frame index\<close>

text \<open>
  C10. DELETE_FRAME on an in-range index sets \<open>currentFrameIndex\<close> to the minimum of its
  old value and the new frame count minus one. Consequently, deleting the only frame of a
  document whose \<open>currentFrameIndex\<close> is non-negative leaves \<open>currentFrameIndex = -1\<close>:
  the property \<open>currentFrameIndex \<ge> 0\<close> is not preserved by every action.
\<close>

theorem delete_frame_current_index:
  "(0 \<le> i \<and> i < int (length (frames state)) \<longrightarrow>
      length (frames (appReducer env state (DELETE_FRAME i))) = length (frames state) - 1 \<and>
      currentFrameIndex (appReducer env state (DELETE_FRAME i)) =
        min (currentFrameIndex state)
            (int (length (frames (appReducer env state (DELETE_FRAME i)))) - 1)) \<and>
   (length (frames state) = 1 \<and> 0 \<le> currentFrameIndex state \<longrightarrow>
      frames (appReducer env state (DELETE_FRAME 0)) = [] \<and>
      currentFrameIndex (appReducer env state (DELETE_FRAME 0)) = -1)"
proof (intro conjI impI)
  assume r: "0 \<le> i \<and> i < int (length (frames state))"
  then have n: "nat i < length (frames state)" by linarith
  show "length (frames (appReducer env state (DELETE_FRAME i))) = length (frames state) - 1"
    using r n by (simp add: appReducer.simps Let_def min_def)
  show "currentFrameIndex (appReducer env state (DELETE_FRAME i)) =
        min (currentFrameIndex state)
            (int (length (frames (appReducer env state (DELETE_FRAME i)))) - 1)"
    using r by (simp add: appReducer.simps Let_def)
next
  assume one: "length (frames state) = 1 \<and> 0 \<le> currentFrameIndex state"
  then obtain f where f: "frames state = [f]"
    by (cases "frames state") auto
  show "frames (appReducer env state (DELETE_FRAME 0)) = []"
    using f by (simp add: appReducer.simps Let_def)
  show "currentFrameIndex (appReducer env state (DELETE_FRAME 0)) = -1"
    using f one by (simp add: appReducer.simps Let_def)
qed

theorem delete_frame_current_index_witness:
  "(0::int) \<le> 0 \<and> 0 < int (length (frames (emptyState\<lparr> frames := [frame0] \<rparr>))) \<and>
   length (frames (emptyState\<lparr> frames := [frame0] \<rparr>)) = 1 \<and>
   0 \<le> currentFrameIndex (emptyState\<lparr> frames := [frame0] \<rparr>) \<and>
   frames (appReducer env0 (emptyState\<lparr> frames := [frame0] \<rparr>) (DELETE_FRAME 0)) = [] \<and>
   currentFrameIndex (appReducer env0 (emptyState\<lparr> frames := [frame0] \<rparr>) (DELETE_FRAME 0)) = -1"
  using delete_frame_current_index [of 0 "emptyState\<lparr> frames := [frame0] \<rparr>" env0]
  by (simp add: emptyState_def)

section \<open>The undo history\<close>


























section \<open>The loops of the reducer in closed form\<close>

lemma fold_delete_filter:
  "fold AList.delete ks m = filter (\<lambda>(k, v). k \<notin> set ks) m"
proof (induction ks arbitrary: m)
  case Nil
  then show ?case by simp
next
  case (Cons a ks)
  have "AList.delete a m = filter (\<lambda>(k, v). k \<noteq> a) m"
    by (induction m) auto
  then show ?case using Cons by (auto intro: filter_cong)
qed

lemma fold_cond_delete_filter:
  "fold (\<lambda>k m. if P k then AList.delete k m else m) ks m =
     filter (\<lambda>(k, v). \<not> (k \<in> set ks \<and> P k)) m"
proof (induction ks arbitrary: m)
  case Nil
  then show ?case by simp
next
  case (Cons a ks)
  have "AList.delete a m = filter (\<lambda>(k, v). k \<noteq> a) m"
    by (induction m) auto
  then show ?case using Cons by (auto intro: filter_cong)
qed

lemma set_set_add: "set (set_add x xs) = insert x (set xs)"
  by (auto simp: set_add_def)

lemma set_vertexIdsToCheck_gen:
  "set (fold (\<lambda>seg acc. set_add (p2 seg) (set_add (p1 seg) acc)) segs acc0) =
     set acc0 \<union> p1 ` set segs \<union> p2 ` set segs"
  by (induction segs arbitrary: acc0) (auto simp: set_set_add)

lemma set_vertexIdsToCheck:
  "set (vertexIdsToCheck segs) = p1 ` set segs \<union> p2 ` set segs"
  by (simp add: vertexIdsToCheck_def set_vertexIdsToCheck_gen)

lemma isUsedElsewhere_gen:
  "fold (\<lambda>(otherId, otherShape) used.
             if otherId \<noteq> sid \<and> vertexId \<in> set (vertexIds otherShape) then True else used)
       ss b = (b \<or> (\<exists>(j, sh) \<in> set ss. j \<noteq> sid \<and> vertexId \<in> set (vertexIds sh)))"
  by (induction ss arbitrary: b) auto

lemma isUsedElsewhere_iff:
  "isUsedElsewhere ss sid vertexId =
     (\<exists>(j, sh) \<in> set ss. j \<noteq> sid \<and> vertexId \<in> set (vertexIds sh))"
  by (simp add: isUsedElsewhere_def isUsedElsewhere_gen)






lemma mergeShapes_map:
  "distinct (map fst ss) \<Longrightarrow>
   mergeShapes S m ss =
     map (\<lambda>(k, v). (k, case mergeShape S m v of None \<Rightarrow> v | Some v' \<Rightarrow> v')) ss"
  unfolding mergeShapes_def by (rule fold_update_visited)

lemma map_of_map_values:
  "map_of (map (\<lambda>(k, v). (k, f k v)) xs) k = map_option (f k) (map_of xs k)"
  by (induction xs) auto

section \<open>INTERPOLATE_FRAMES\<close>





section \<open>DELETE_SHAPE on a bezier\<close>


lemma map_of_filter_keys:
  "map_of (filter (\<lambda>(k, v). P k) m) k = (if P k then map_of m k else None)"
  by (induction m) auto

lemma delete_shape_bezier_state:
  assumes "map_of (shapes s) i = Some sh" "s_kind sh = Bezier segs c"
  shows "appReducer env s (DELETE_SHAPE i) =
    s\<lparr> shapes := AList.delete i (shapes s),
       vertices :=
         fold (\<lambda>vertexId newVertices.
                 if \<not> isUsedElsewhere (shapes s) i vertexId
                 then AList.delete vertexId newVertices else newVertices)
           (vertexIdsToCheck segs) (vertices s),
       selectedShapeIds := {j \<in> selectedShapeIds s. j \<noteq> i},
       history := saveHistory s \<rparr>"
  using assms by (simp add: appReducer.simps)

text \<open>
  C7 (as the code has it). DELETE_SHAPE on a bezier removes the shape, drops its id from
  the shape selection, and deletes exactly the vertices that are a control point \<open>p1\<close> or
  \<open>p2\<close> of one of its segments and occur in the \<open>vertexIds\<close> of no other
  shape. The fields \<open>p0\<close> and \<open>p3\<close> are not examined: every vertex that is not a
  \<open>p1\<close> or \<open>p2\<close> of the bezier stays, and a vertex that a segment names both as an
  end point and as a control point is treated as a control point.
\<close>

theorem delete_bezier_shape:
  fixes s :: AppState and env :: Env and i :: string
  assumes sh: "map_of (shapes s) i = Some sh" and k: "s_kind sh = Bezier segs c"
  defines "s' \<equiv> appReducer env s (DELETE_SHAPE i)"
  shows "shapes s' = AList.delete i (shapes s) \<and>
         map_of (shapes s') i = None \<and>
         (\<forall>j. j \<noteq> i \<longrightarrow> map_of (shapes s') j = map_of (shapes s) j) \<and>
         vertices s' =
           filter (\<lambda>(v, _). \<not> ((v \<in> p1 ` set segs \<or> v \<in> p2 ` set segs) \<and>
                                 \<not> (\<exists>(j, other) \<in> set (shapes s). j \<noteq> i \<and> v \<in> set (vertexIds other))))
             (vertices s) \<and>
         (\<forall>v. v \<notin> p1 ` set segs \<and> v \<notin> p2 ` set segs \<longrightarrow>
              map_of (vertices s') v = map_of (vertices s) v) \<and>
         selectedShapeIds s' = selectedShapeIds s - {i} \<and>
         history s' = saveHistory s"
proof -
  have st: "s' = s\<lparr> shapes := AList.delete i (shapes s),
       vertices :=
         fold (\<lambda>vertexId newVertices.
                 if \<not> isUsedElsewhere (shapes s) i vertexId
                 then AList.delete vertexId newVertices else newVertices)
           (vertexIdsToCheck segs) (vertices s),
       selectedShapeIds := {j \<in> selectedShapeIds s. j \<noteq> i},
       history := saveHistory s \<rparr>"
    unfolding s'_def using sh k by (rule delete_shape_bezier_state)
  have c1: "shapes s' = AList.delete i (shapes s)" by (simp add: st)
  have c2: "map_of (shapes s') i = None" by (simp add: c1 delete_conv')
  have c3: "\<forall>j. j \<noteq> i \<longrightarrow> map_of (shapes s') j = map_of (shapes s) j"
    by (simp add: c1 delete_conv')
  have c4: "vertices s' =
           filter (\<lambda>(v, _). \<not> ((v \<in> p1 ` set segs \<or> v \<in> p2 ` set segs) \<and>
                                 \<not> (\<exists>(j, other) \<in> set (shapes s). j \<noteq> i \<and> v \<in> set (vertexIds other))))
             (vertices s)"
    by (simp add: st fold_cond_delete_filter set_vertexIdsToCheck isUsedElsewhere_iff)
  have c5: "\<forall>v. v \<notin> p1 ` set segs \<and> v \<notin> p2 ` set segs \<longrightarrow>
              map_of (vertices s') v = map_of (vertices s) v"
    unfolding c4 by (simp add: map_of_filter_keys)
  have c6: "selectedShapeIds s' = selectedShapeIds s - {i}" by (auto simp: st)
  have c7: "history s' = saveHistory s" by (simp add: st)
  from c1 c2 c3 c4 c5 c6 c7 show ?thesis by (intro conjI)
qed

theorem delete_bezier_shape_witness:
  "map_of (shapes bezDoc) ''bz'' = Some bezShape \<and> s_kind bezShape = Bezier [seg0] False \<and>
   vertices (appReducer env0 bezDoc (DELETE_SHAPE ''bz'')) =
     [(''a'', vtx ''a'' 0 0), (''b'', vtx ''b'' 100 100)] \<and>
   shapes (appReducer env0 bezDoc (DELETE_SHAPE ''bz'')) = []"
proof -
  have h1: "map_of (shapes bezDoc) ''bz'' = Some bezShape"
    and h2: "s_kind bezShape = Bezier [seg0] False"
    by (simp_all add: bezDoc_def emptyState_def bezShape_def mkShape_def)
  show ?thesis
    using h1 h2 delete_bezier_shape [OF h1 h2, of env0]
    by (simp add: bezDoc_def emptyState_def seg0_def)
qed

text \<open>
  The claim as stated fails: in \<open>bezDoc\<close> the vertices \<open>a\<close> and \<open>b\<close> are the \<open>p0\<close>
  and \<open>p3\<close> of the bezier's segment, no other shape exists, and both survive the
  deletion of the bezier.
\<close>

theorem delete_bezier_shape_counterexample:
  "map_of (shapes bezDoc) ''bz'' = Some bezShape \<and> s_kind bezShape = Bezier [seg0] False \<and>
   p0 seg0 = ''a'' \<and> p3 seg0 = ''b'' \<and>
   shapes (appReducer env0 bezDoc (DELETE_SHAPE ''bz'')) = [] \<and>
   map_of (vertices (appReducer env0 bezDoc (DELETE_SHAPE ''bz''))) ''a'' = Some (vtx ''a'' 0 0) \<and>
   map_of (vertices (appReducer env0 bezDoc (DELETE_SHAPE ''bz''))) ''b'' = Some (vtx ''b'' 100 100)"
  by code_simp


section \<open>MERGE_VERTICES\<close>

lemma merge_small: "length ids < 2 \<Longrightarrow> appReducer env s (MERGE_VERTICES ids p) = s"
  by (simp add: appReducer.simps)

lemma merge_state:
  "2 \<le> length ids \<Longrightarrow>
   appReducer env s (MERGE_VERTICES ids p) =
     s\<lparr> vertices := fold AList.delete ids
            (AList.update (genId env)
               \<lparr> v_id = genId env, v_x = pos_x p, v_y = pos_y p, v_type = Anchor, v_parentId = None \<rparr>
               (vertices s)),
        shapes := mergeShapes (set ids) (genId env) (shapes s),
        selectedVertexIds := {genId env},
        history := saveHistory s \<rparr>"
  by (simp add: appReducer.simps Let_def)

lemma zip_map_changed:
  "list_ex (\<lambda>(a, b). a \<noteq> b) (zip (map f xs) xs) = (\<exists>x \<in> set xs. f x \<noteq> x)"
  by (induction xs) auto

lemma mergeSegment_id:
  "\<not> segmentTouched S seg \<Longrightarrow> mergeSegment S m seg = seg"
  by (simp add: segmentTouched_def mergeSegment_def)

lemma mergeShape_result:
  "(case mergeShape S m sh of None \<Rightarrow> sh | Some sh' \<Rightarrow> sh') =
     (case s_kind sh of
        Bezier segs c \<Rightarrow>
          sh\<lparr> s_kind := Bezier (map (mergeSegment S m) segs) c,
              vertexIds := (if list_ex (segmentTouched S) segs
                            then segmentIds (map (mergeSegment S m) segs) else vertexIds sh) \<rparr>
      | _ \<Rightarrow> sh\<lparr> vertexIds := map (renameId S m) (vertexIds sh) \<rparr>)"
proof (cases "s_kind sh")
  case (Bezier segs c)
  have "\<not> list_ex (segmentTouched S) segs \<Longrightarrow> map (mergeSegment S m) segs = segs"
    by (induction segs) (auto simp: mergeSegment_id)
  then show ?thesis using Bezier
    by (auto simp: mergeShape_def Let_def)
next
  case Line
  have r: "(\<lambda>vId. if vId \<in> S then m else vId) = renameId S m" by (auto simp: renameId_def)
  have "\<not> (\<exists>x \<in> set (vertexIds sh). renameId S m x \<noteq> x) \<Longrightarrow> map (renameId S m) (vertexIds sh) = vertexIds sh"
    by (induction "vertexIds sh") (auto simp: map_idI)
  then show ?thesis using Line
    by (auto simp: mergeShape_def Let_def zip_map_changed r)
next
  case Rect
  have r: "(\<lambda>vId. if vId \<in> S then m else vId) = renameId S m" by (auto simp: renameId_def)
  have "\<not> (\<exists>x \<in> set (vertexIds sh). renameId S m x \<noteq> x) \<Longrightarrow> map (renameId S m) (vertexIds sh) = vertexIds sh"
    by (induction "vertexIds sh") (auto simp: map_idI)
  then show ?thesis using Rect
    by (auto simp: mergeShape_def Let_def zip_map_changed r)
next
  case (Circle x3)
  have r: "(\<lambda>vId. if vId \<in> S then m else vId) = renameId S m" by (auto simp: renameId_def)
  have "\<not> (\<exists>x \<in> set (vertexIds sh). renameId S m x \<noteq> x) \<Longrightarrow> map (renameId S m) (vertexIds sh) = vertexIds sh"
    by (induction "vertexIds sh") (auto simp: map_idI)
  then show ?thesis using Circle
    by (auto simp: mergeShape_def Let_def zip_map_changed r)
next
  case (Polygon x5)
  have r: "(\<lambda>vId. if vId \<in> S then m else vId) = renameId S m" by (auto simp: renameId_def)
  have "\<not> (\<exists>x \<in> set (vertexIds sh). renameId S m x \<noteq> x) \<Longrightarrow> map (renameId S m) (vertexIds sh) = vertexIds sh"
    by (induction "vertexIds sh") (auto simp: map_idI)
  then show ?thesis using Polygon
    by (auto simp: mergeShape_def Let_def zip_map_changed r)
qed

lemma map_of_fold_delete:
  "map_of (fold AList.delete ks m) k = (if k \<in> set ks then None else map_of m k)"
  by (simp add: fold_delete_filter map_of_filter_keys)

lemma renameId_notin: "new \<notin> S \<Longrightarrow> renameId S new v \<notin> S"
  by (simp add: renameId_def)

lemma mergeSegment_rename:
  "mergeSegment S new g =
     \<lparr> p0 = renameId S new (p0 g), p1 = renameId S new (p1 g),
       p2 = renameId S new (p2 g), p3 = renameId S new (p3 g) \<rparr>"
  by (simp add: mergeSegment_def renameId_def)

lemma segmentIds_merge:
  "segmentIds (map (mergeSegment S new) segs) = map (renameId S new) (segmentIds segs)"
  by (induction segs) (auto simp: segmentIds_def mergeSegment_rename)

text \<open>
  What MERGE_VERTICES does. With fewer than two ids it returns the state unchanged. With
  two or more ids, and a generated id that is not one of them, it adds one anchor vertex
  at the target position under the generated id, deletes the merged vertices, selects
  exactly the new vertex and saves a history snapshot. In every shape that is not a
  bezier each merged id in \<open>vertexIds\<close> becomes the new id. In a bezier the fields
  \<open>p0..p3\<close> of every segment are renamed, and \<open>vertexIds\<close> is rebuilt from the renamed
  segments when some segment named a merged id, and is left as it is otherwise.
\<close>

lemma merge_vertices_effect:
  fixes s :: AppState and env :: Env and ids :: "string list" and p :: Pos
  assumes d: "distinct (map fst (shapes s))" and fresh: "genId env \<notin> set ids"
  defines "s' \<equiv> appReducer env s (MERGE_VERTICES ids p)"
  defines "new \<equiv> genId env"
  shows "(length ids < 2 \<longrightarrow> s' = s) \<and>
    (2 \<le> length ids \<longrightarrow>
       map_of (vertices s') new =
         Some \<lparr> v_id = new, v_x = pos_x p, v_y = pos_y p, v_type = Anchor, v_parentId = None \<rparr> \<and>
       (\<forall>k \<in> set ids. map_of (vertices s') k = None) \<and>
       (\<forall>k. k \<notin> set ids \<and> k \<noteq> new \<longrightarrow> map_of (vertices s') k = map_of (vertices s) k) \<and>
       map fst (shapes s') = map fst (shapes s) \<and>
       (\<forall>k sh. map_of (shapes s) k = Some sh \<longrightarrow>
          map_of (shapes s') k =
            Some (case s_kind sh of
                    Bezier segs c \<Rightarrow>
                      sh\<lparr> s_kind := Bezier (map (mergeSegment (set ids) new) segs) c,
                          vertexIds :=
                            (if \<exists>g \<in> set segs. segmentTouched (set ids) g
                             then map (renameId (set ids) new) (segmentIds segs)
                             else vertexIds sh) \<rparr>
                  | _ \<Rightarrow> sh\<lparr> vertexIds := map (renameId (set ids) new) (vertexIds sh) \<rparr>)) \<and>
       (\<forall>k sh' segs c. map_of (shapes s') k = Some sh' \<and> s_kind sh' = Bezier segs c \<longrightarrow>
          set (segmentIds segs) \<inter> set ids = {}) \<and>
       (\<forall>k sh'. map_of (shapes s') k = Some sh' \<and> (\<forall>segs c. s_kind sh' \<noteq> Bezier segs c) \<longrightarrow>
          set (vertexIds sh') \<inter> set ids = {}) \<and>
       selectedVertexIds s' = {new} \<and>
       history s' = saveHistory s)"
proof (intro conjI impI)
  assume "length ids < 2"
  then show "s' = s" unfolding s'_def by (rule merge_small)
next
  assume two: "2 \<le> length ids"
  have st: "s' = s\<lparr> vertices := fold AList.delete ids
            (AList.update new
               \<lparr> v_id = new, v_x = pos_x p, v_y = pos_y p, v_type = Anchor, v_parentId = None \<rparr>
               (vertices s)),
        shapes := mergeShapes (set ids) new (shapes s),
        selectedVertexIds := {new},
        history := saveHistory s \<rparr>"
    unfolding s'_def new_def using two by (rule merge_state)
  have nf: "new \<notin> set ids" using fresh by (simp add: new_def)
  have shp: "shapes s' =
      map (\<lambda>(k, v). (k, case mergeShape (set ids) new v of None \<Rightarrow> v | Some v' \<Rightarrow> v')) (shapes s)"
    using d by (simp add: st mergeShapes_map)
  show "map_of (vertices s') new =
         Some \<lparr> v_id = new, v_x = pos_x p, v_y = pos_y p, v_type = Anchor, v_parentId = None \<rparr>"
    using nf by (simp add: st map_of_fold_delete update_conv')
  show "\<forall>k \<in> set ids. map_of (vertices s') k = None"
    by (simp add: st map_of_fold_delete)
  show "\<forall>k. k \<notin> set ids \<and> k \<noteq> new \<longrightarrow> map_of (vertices s') k = map_of (vertices s) k"
    by (simp add: st map_of_fold_delete update_conv')
  show "map fst (shapes s') = map fst (shapes s)"
    by (simp add: shp case_prod_unfold comp_def)
  show main: "\<forall>k sh. map_of (shapes s) k = Some sh \<longrightarrow>
          map_of (shapes s') k =
            Some (case s_kind sh of
                    Bezier segs c \<Rightarrow>
                      sh\<lparr> s_kind := Bezier (map (mergeSegment (set ids) new) segs) c,
                          vertexIds :=
                            (if \<exists>g \<in> set segs. segmentTouched (set ids) g
                             then map (renameId (set ids) new) (segmentIds segs)
                             else vertexIds sh) \<rparr>
                  | _ \<Rightarrow> sh\<lparr> vertexIds := map (renameId (set ids) new) (vertexIds sh) \<rparr>)"
  proof (intro allI impI)
    fix k sh assume m: "map_of (shapes s) k = Some sh"
    have "map_of (shapes s') k =
            Some (case mergeShape (set ids) new sh of None \<Rightarrow> sh | Some v' \<Rightarrow> v')"
      using m by (simp add: shp map_of_map_values)
    then show "map_of (shapes s') k =
            Some (case s_kind sh of
                    Bezier segs c \<Rightarrow>
                      sh\<lparr> s_kind := Bezier (map (mergeSegment (set ids) new) segs) c,
                          vertexIds :=
                            (if \<exists>g \<in> set segs. segmentTouched (set ids) g
                             then map (renameId (set ids) new) (segmentIds segs)
                             else vertexIds sh) \<rparr>
                  | _ \<Rightarrow> sh\<lparr> vertexIds := map (renameId (set ids) new) (vertexIds sh) \<rparr>)"
      by (simp add: mergeShape_result segmentIds_merge list_ex_iff split: ShapeKind.splits)
  qed
  have orig: "\<And>k sh'. map_of (shapes s') k = Some sh' \<Longrightarrow>
            \<exists>sh. map_of (shapes s) k = Some sh"
    by (auto simp: shp map_of_map_values)
  show "\<forall>k sh' segs c. map_of (shapes s') k = Some sh' \<and> s_kind sh' = Bezier segs c \<longrightarrow>
          set (segmentIds segs) \<inter> set ids = {}"
  proof (intro allI impI)
    fix k sh' segs c
    assume a: "map_of (shapes s') k = Some sh' \<and> s_kind sh' = Bezier segs c"
    then obtain sh where m: "map_of (shapes s) k = Some sh" using orig by blast
    from main m a obtain segs0 where "segs = map (mergeSegment (set ids) new) segs0"
      by (cases "s_kind sh") auto
    then have "segmentIds segs = map (renameId (set ids) new) (segmentIds segs0)"
      by (simp add: segmentIds_merge)
    then show "set (segmentIds segs) \<inter> set ids = {}"
      using nf by (auto simp: renameId_notin)
  qed
  show "\<forall>k sh'. map_of (shapes s') k = Some sh' \<and> (\<forall>segs c. s_kind sh' \<noteq> Bezier segs c) \<longrightarrow>
          set (vertexIds sh') \<inter> set ids = {}"
  proof (intro allI impI)
    fix k sh'
    assume a: "map_of (shapes s') k = Some sh' \<and> (\<forall>segs c. s_kind sh' \<noteq> Bezier segs c)"
    then obtain sh where m: "map_of (shapes s) k = Some sh" using orig by blast
    from main m a have "vertexIds sh' = map (renameId (set ids) new) (vertexIds sh)"
      by (cases "s_kind sh") auto
    then show "set (vertexIds sh') \<inter> set ids = {}"
      using nf by (auto simp: renameId_notin)
  qed
  show "selectedVertexIds s' = {new}" by (simp add: st)
  show "history s' = saveHistory s" by (simp add: st)
qed


section \<open>DELETE_VERTEX\<close>




section \<open>The bezier tool\<close>

lemma bezierLoop_segments:
  "snd (bezierLoop gen st i tv) =
     map (\<lambda>k. \<lparr> p0 = v_id (tv ! k), p1 = gen (2 * (i + k)), p2 = gen (2 * (i + k) + 1),
                p3 = v_id (tv ! Suc k) \<rparr>) [0 ..< length tv - 1]"
proof (induction gen st i tv rule: bezierLoop.induct)
  case (1 gen state i a b rest)
  have "[0 ..< length (a # b # rest) - 1] = 0 # map Suc [0 ..< length (b # rest) - 1]"
    by (simp add: upt_conv_Cons map_Suc_upt del: upt_Suc)
  then show ?case using 1
    by (simp add: Let_def case_prod_unfold control1_def control2_def comp_def del: upt_Suc)
qed simp_all

lemma bezierLoop_controls:
  "k < length tv - 1 \<Longrightarrow>
   ADD_VERTEX (control1 (gen (2 * (i + k))) (tv ! k) (tv ! Suc k)) \<in> set (fst (bezierLoop gen st i tv)) \<and>
   ADD_VERTEX (control2 (gen (2 * (i + k) + 1)) (tv ! k) (tv ! Suc k)) \<in> set (fst (bezierLoop gen st i tv))"
proof (induction gen st i tv arbitrary: k rule: bezierLoop.induct)
  case (1 gen state i a b rest)
  show ?case
  proof (cases k)
    case 0
    then show ?thesis by (simp add: Let_def case_prod_unfold)
  next
    case (Suc j)
    then have "j < length (b # rest) - 1" using 1(2) by simp
    from 1(1) [OF refl refl refl refl this] Suc
    show ?thesis by (simp add: Let_def case_prod_unfold)
  qed
qed simp_all

lemma bezierLoop_no_shape:
  "filter isAddShape (fst (bezierLoop gen st i tv)) = []"
  by (induction gen st i tv rule: bezierLoop.induct)
     (simp_all add: Let_def case_prod_unfold)

lemma control1_collinear:
  "collinear3 a b (control1 n a b) \<longleftrightarrow> v_x a = v_x b \<or> v_y a = v_y b"
  by (auto simp: collinear3_def control1_def)

lemma two_thirds_cross:
  fixes d e :: real
  shows "d * (66 / 100) * e = e * d \<longleftrightarrow> d = 0 \<or> e = 0"
proof -
  have "e * d - d * (66 / 100) * e = d * e * (34 / 100)" by (simp add: algebra_simps)
  then have "d * (66 / 100) * e = e * d \<longleftrightarrow> d * e * (34 / 100) = 0" by auto
  then show ?thesis by simp
qed

lemma control2_collinear:
  "collinear3 a b (control2 n a b) \<longleftrightarrow> v_x a = v_x b \<or> v_y a = v_y b"
  using two_thirds_cross [of "v_x b - v_x a" "v_y b - v_y a"]
  by (auto simp: collinear3_def control2_def)

text \<open>
  C8 (as the code has it). A right-click in the bezier tool with \<open>n \<ge> 2\<close> pending anchors
  empties the pending list and dispatches exactly one ADD_SHAPE, last: a bezier, not
  closed, with one segment per consecutive anchor pair in click order, segment \<open>k\<close>
  being (anchor \<open>k\<close>, new control, new control, anchor \<open>k + 1\<close>). The first control point
  is dispatched with x at 33% of the horizontal span and the y of the first anchor, the
  second with x at 66% of the horizontal span and the y of the second anchor. Each is on
  the straight line through the two anchors exactly when the anchors agree in x or in y.
\<close>

theorem bezier_right_click:
  fixes gen :: "nat \<Rightarrow> string" and st :: AppState and sty :: Style
    and tv :: "Vertex list" and nv :: Vertex
  assumes n: "2 \<le> length tv"
  defines "res \<equiv> handleMouseDown_bezier gen st sty tv 2 nv"
  defines "segs \<equiv> map (\<lambda>k. \<lparr> p0 = v_id (tv ! k), p1 = gen (2 * k), p2 = gen (2 * k + 1),
                               p3 = v_id (tv ! Suc k) \<rparr>) [0 ..< length tv - 1]"
  defines "bezier \<equiv> \<lparr> s_id = gen (2 * (length tv - 1)), s_kind = Bezier segs False,
                       vertexIds = segmentIds segs, style = sty, visible = True,
                       locked = False, metadata = None \<rparr>"
  shows "snd res = [] \<and>
     filter isAddShape (fst res) = [ADD_SHAPE bezier] \<and>
     last (fst res) = ADD_SHAPE bezier \<and>
     length segs = length tv - 1 \<and>
     (\<forall>k < length tv - 1.
        ADD_VERTEX \<lparr> v_id = gen (2 * k),
                     v_x = v_x (tv ! k) + (v_x (tv ! Suc k) - v_x (tv ! k)) * (33 / 100),
                     v_y = v_y (tv ! k), v_type = Control,
                     v_parentId = Some (v_id (tv ! k)) \<rparr> \<in> set (fst res) \<and>
        ADD_VERTEX \<lparr> v_id = gen (2 * k + 1),
                     v_x = v_x (tv ! k) + (v_x (tv ! Suc k) - v_x (tv ! k)) * (66 / 100),
                     v_y = v_y (tv ! Suc k), v_type = Control,
                     v_parentId = Some (v_id (tv ! Suc k)) \<rparr> \<in> set (fst res) \<and>
        (collinear3 (tv ! k) (tv ! Suc k)
           \<lparr> v_id = gen (2 * k),
             v_x = v_x (tv ! k) + (v_x (tv ! Suc k) - v_x (tv ! k)) * (33 / 100),
             v_y = v_y (tv ! k), v_type = Control, v_parentId = Some (v_id (tv ! k)) \<rparr>
         \<longleftrightarrow> v_x (tv ! k) = v_x (tv ! Suc k) \<or> v_y (tv ! k) = v_y (tv ! Suc k)) \<and>
        (collinear3 (tv ! k) (tv ! Suc k)
           \<lparr> v_id = gen (2 * k + 1),
             v_x = v_x (tv ! k) + (v_x (tv ! Suc k) - v_x (tv ! k)) * (66 / 100),
             v_y = v_y (tv ! Suc k), v_type = Control, v_parentId = Some (v_id (tv ! Suc k)) \<rparr>
         \<longleftrightarrow> v_x (tv ! k) = v_x (tv ! Suc k) \<or> v_y (tv ! k) = v_y (tv ! Suc k)))"
proof -
  have sg: "snd (bezierLoop gen st 0 tv) = segs"
    by (simp add: bezierLoop_segments segs_def)
  have r: "res = (fst (bezierLoop gen st 0 tv) @ [ADD_SHAPE bezier], [])"
    using n by (simp add: res_def handleMouseDown_bezier_def Let_def case_prod_unfold sg bezier_def)
  have c1: "snd res = []" by (simp add: r)
  have c2: "filter isAddShape (fst res) = [ADD_SHAPE bezier]"
    by (simp add: r bezierLoop_no_shape)
  have c3: "last (fst res) = ADD_SHAPE bezier" by (simp add: r)
  have c4: "length segs = length tv - 1" by (simp add: segs_def)
  have c5: "\<forall>k < length tv - 1.
        ADD_VERTEX \<lparr> v_id = gen (2 * k),
                     v_x = v_x (tv ! k) + (v_x (tv ! Suc k) - v_x (tv ! k)) * (33 / 100),
                     v_y = v_y (tv ! k), v_type = Control,
                     v_parentId = Some (v_id (tv ! k)) \<rparr> \<in> set (fst res) \<and>
        ADD_VERTEX \<lparr> v_id = gen (2 * k + 1),
                     v_x = v_x (tv ! k) + (v_x (tv ! Suc k) - v_x (tv ! k)) * (66 / 100),
                     v_y = v_y (tv ! Suc k), v_type = Control,
                     v_parentId = Some (v_id (tv ! Suc k)) \<rparr> \<in> set (fst res) \<and>
        (collinear3 (tv ! k) (tv ! Suc k)
           \<lparr> v_id = gen (2 * k),
             v_x = v_x (tv ! k) + (v_x (tv ! Suc k) - v_x (tv ! k)) * (33 / 100),
             v_y = v_y (tv ! k), v_type = Control, v_parentId = Some (v_id (tv ! k)) \<rparr>
         \<longleftrightarrow> v_x (tv ! k) = v_x (tv ! Suc k) \<or> v_y (tv ! k) = v_y (tv ! Suc k)) \<and>
        (collinear3 (tv ! k) (tv ! Suc k)
           \<lparr> v_id = gen (2 * k + 1),
             v_x = v_x (tv ! k) + (v_x (tv ! Suc k) - v_x (tv ! k)) * (66 / 100),
             v_y = v_y (tv ! Suc k), v_type = Control, v_parentId = Some (v_id (tv ! Suc k)) \<rparr>
         \<longleftrightarrow> v_x (tv ! k) = v_x (tv ! Suc k) \<or> v_y (tv ! k) = v_y (tv ! Suc k))"
  proof (intro allI impI)
    fix k assume k: "k < length tv - 1"
    have m: "ADD_VERTEX (control1 (gen (2 * k)) (tv ! k) (tv ! Suc k)) \<in> set (fst res) \<and>
          ADD_VERTEX (control2 (gen (2 * k + 1)) (tv ! k) (tv ! Suc k)) \<in> set (fst res)"
      using bezierLoop_controls [OF k, of gen 0 st] by (simp add: r)
    show "ADD_VERTEX \<lparr> v_id = gen (2 * k),
                     v_x = v_x (tv ! k) + (v_x (tv ! Suc k) - v_x (tv ! k)) * (33 / 100),
                     v_y = v_y (tv ! k), v_type = Control,
                     v_parentId = Some (v_id (tv ! k)) \<rparr> \<in> set (fst res) \<and>
        ADD_VERTEX \<lparr> v_id = gen (2 * k + 1),
                     v_x = v_x (tv ! k) + (v_x (tv ! Suc k) - v_x (tv ! k)) * (66 / 100),
                     v_y = v_y (tv ! Suc k), v_type = Control,
                     v_parentId = Some (v_id (tv ! Suc k)) \<rparr> \<in> set (fst res) \<and>
        (collinear3 (tv ! k) (tv ! Suc k)
           \<lparr> v_id = gen (2 * k),
             v_x = v_x (tv ! k) + (v_x (tv ! Suc k) - v_x (tv ! k)) * (33 / 100),
             v_y = v_y (tv ! k), v_type = Control, v_parentId = Some (v_id (tv ! k)) \<rparr>
         \<longleftrightarrow> v_x (tv ! k) = v_x (tv ! Suc k) \<or> v_y (tv ! k) = v_y (tv ! Suc k)) \<and>
        (collinear3 (tv ! k) (tv ! Suc k)
           \<lparr> v_id = gen (2 * k + 1),
             v_x = v_x (tv ! k) + (v_x (tv ! Suc k) - v_x (tv ! k)) * (66 / 100),
             v_y = v_y (tv ! Suc k), v_type = Control, v_parentId = Some (v_id (tv ! Suc k)) \<rparr>
         \<longleftrightarrow> v_x (tv ! k) = v_x (tv ! Suc k) \<or> v_y (tv ! k) = v_y (tv ! Suc k))"
      using m control1_collinear [of "tv ! k" "tv ! Suc k" "gen (2 * k)"]
            control2_collinear [of "tv ! k" "tv ! Suc k" "gen (2 * k + 1)"]
      unfolding control1_def control2_def by blast
  qed
  from c1 c2 c3 c4 c5 show ?thesis by (intro conjI)
qed

theorem bezier_right_click_witness:
  "2 \<le> length tvW \<and> (0::nat) < length tvW - 1 \<and>
   snd (handleMouseDown_bezier genW emptyState style0 tvW 2 (vtx ''n'' 0 0)) = [] \<and>
   ADD_VERTEX \<lparr> v_id = ''g0'', v_x = 33, v_y = 0, v_type = Control, v_parentId = Some ''a'' \<rparr>
     \<in> set (fst (handleMouseDown_bezier genW emptyState style0 tvW 2 (vtx ''n'' 0 0)))"
proof -
  have h: "2 \<le> length tvW" and k: "(0::nat) < length tvW - 1"
    by (simp_all add: tvW_def)
  note inst = bezier_right_click [OF h, of genW emptyState style0 "vtx ''n'' 0 0"]
  have "\<forall>k < length tvW - 1.
          ADD_VERTEX \<lparr> v_id = genW (2 * k),
                     v_x = v_x (tvW ! k) + (v_x (tvW ! Suc k) - v_x (tvW ! k)) * (33 / 100),
                     v_y = v_y (tvW ! k), v_type = Control,
                     v_parentId = Some (v_id (tvW ! k)) \<rparr>
            \<in> set (fst (handleMouseDown_bezier genW emptyState style0 tvW 2 (vtx ''n'' 0 0)))"
    using inst by blast
  then have "ADD_VERTEX \<lparr> v_id = genW (2 * 0),
                     v_x = v_x (tvW ! 0) + (v_x (tvW ! Suc 0) - v_x (tvW ! 0)) * (33 / 100),
                     v_y = v_y (tvW ! 0), v_type = Control,
                     v_parentId = Some (v_id (tvW ! 0)) \<rparr>
            \<in> set (fst (handleMouseDown_bezier genW emptyState style0 tvW 2 (vtx ''n'' 0 0)))"
    using k by blast
  moreover have "genW (2 * 0) = ''g0''" by (simp add: genW_def showNat.simps)
  moreover have "v_x (tvW ! 0) + (v_x (tvW ! Suc 0) - v_x (tvW ! 0)) * (33 / 100) = 33"
    and "v_y (tvW ! 0) = 0" and "v_id (tvW ! 0) = ''a''"
    by (simp_all add: tvW_def vtx_def)
  moreover have "snd (handleMouseDown_bezier genW emptyState style0 tvW 2 (vtx ''n'' 0 0)) = []"
    using inst by blast
  ultimately show ?thesis using h k by simp
qed

text \<open>
  The claim as stated fails: for the anchors \<open>(0, 0)\<close> and \<open>(100, 100)\<close> the dispatched
  control points are \<open>(33, 0)\<close> and \<open>(66, 100)\<close>, neither of them on the line through the
  anchors.
\<close>

theorem bezier_right_click_counterexample:
  "fst (handleMouseDown_bezier genW emptyState style0 tvW 2 (vtx ''n'' 0 0)) =
     [ADD_VERTEX (vtx ''a'' 0 0),
      ADD_VERTEX \<lparr> v_id = ''g0'', v_x = 33, v_y = 0, v_type = Control, v_parentId = Some ''a'' \<rparr>,
      ADD_VERTEX \<lparr> v_id = ''g1'', v_x = 66, v_y = 100, v_type = Control, v_parentId = Some ''b'' \<rparr>,
      ADD_VERTEX (vtx ''b'' 100 100),
      ADD_SHAPE (mkShape ''g2'' (Bezier [\<lparr> p0 = ''a'', p1 = ''g0'', p2 = ''g1'', p3 = ''b'' \<rparr>] False)
                   [''a'', ''g0'', ''g1'', ''b''])] \<and>
   \<not> collinear3 (vtx ''a'' 0 0) (vtx ''b'' 100 100)
        \<lparr> v_id = ''g0'', v_x = 33, v_y = 0, v_type = Control, v_parentId = Some ''a'' \<rparr> \<and>
   \<not> collinear3 (vtx ''a'' 0 0) (vtx ''b'' 100 100)
        \<lparr> v_id = ''g1'', v_x = 66, v_y = 100, v_type = Control, v_parentId = Some ''b'' \<rparr>"
  by code_simp

section \<open>Maps built by repeated set\<close>

lemma map_of_fold_update_gen:
  "map_of (fold (\<lambda>x m. AList.update (key x) (val x) m) xs m0) =
     map_of m0 ++ map_of (rev (map (\<lambda>x. (key x, val x)) xs))"
proof (induction xs arbitrary: m0)
  case Nil
  then show ?case by simp
next
  case (Cons x xs)
  have "map_of (AList.update (key x) (val x) m0) ++ map_of (rev (map (\<lambda>x. (key x, val x)) xs)) =
        map_of m0 ++ (map_of [(key x, val x)] ++ map_of (rev (map (\<lambda>x. (key x, val x)) xs)))"
    by (simp add: update_conv' map_add_upd_left fun_eq_iff map_add_def split: option.splits)
  then show ?case using Cons by (simp add: map_of_append)
qed

lemma fold_update_Some:
  assumes "map_of (fold (\<lambda>x m. AList.update (key x) (val x) m) xs []) i = Some v"
  shows "\<exists>x \<in> set xs. key x = i \<and> v = val x"
proof -
  have "map_of (rev (map (\<lambda>x. (key x, val x)) xs)) i = Some v"
    using assms by (simp add: map_of_fold_update_gen)
  then have "(i, v) \<in> set (rev (map (\<lambda>x. (key x, val x)) xs))" by (rule map_of_SomeD)
  then show ?thesis by auto
qed

lemma fold_update_defined:
  assumes "x \<in> set xs"
  shows "map_of (fold (\<lambda>x m. AList.update (key x) (val x) m) xs []) (key x) \<noteq> None"
proof -
  have "key x \<in> fst ` set (rev (map (\<lambda>x. (key x, val x)) xs))"
    using assms by force
  then show ?thesis
    by (simp add: map_of_fold_update_gen map_of_eq_None_iff)
qed





section \<open>Import: conversion from grid units\<close>

lemma fromGridUnits_scale:
  "fromGridUnits me g pos = (fst pos * importScale me g, snd pos * importScale me g)"
  by (cases pos)
     (auto simp: fromGridUnits_def importScale_def usesGridUnits_def importGridSize_def
           split: option.splits)

lemma parseVertex_scale:
  "parseVertex me g v =
     \<lparr> v_id = ev_id v, v_x = fst (ev_position v) * importScale me g,
       v_y = snd (ev_position v) * importScale me g, v_type = ev_type v,
       v_parentId = ev_parentId v \<rparr>"
  by (simp add: parseVertex_def fromGridUnits_scale)

lemma parseFrame_positions:
  "f_vertices (parseFrame me g f) =
     fold (\<lambda>x m. AList.update (fst x)
                   \<lparr> pos_x = fst (snd x) * importScale me g, pos_y = snd (snd x) * importScale me g \<rparr> m)
       (ef_vertexPositions f) []"
  by (simp add: parseFrame_def fromGridUnits_scale case_prod_unfold)

text \<open>
  C6 (as the code has it). Import multiplies every vertex position and every frame
  position by one factor, \<open>importScale\<close>: the declared \<open>coordinateSystem.gridSize\<close> when
  the document declares \<open>coordinateSystem.unit = "grid"\<close> (the session's grid size when
  that declaration has no size, or size zero), and 1 otherwise. In particular a
  document without metadata is imported with its positions as they are: the session's
  grid size is not applied to it.
\<close>

theorem import_grid_conversion:
  fixes me :: MeshExport and g :: real
  defines "p \<equiv> parseImportData me g"
  defines "k \<equiv> importScale me g"
  shows "(\<forall>v \<in> set (me_vertices me). map_of (pd_vertices p) (ev_id v) \<noteq> None) \<and>
     (\<forall>i v'. map_of (pd_vertices p) i = Some v' \<longrightarrow>
        (\<exists>v \<in> set (me_vertices me). ev_id v = i \<and>
           v_x v' = fst (ev_position v) * k \<and> v_y v' = snd (ev_position v) * k)) \<and>
     (me_frames me = None \<longrightarrow> pd_frames p = []) \<and>
     (\<forall>fs. me_frames me = Some fs \<longrightarrow>
        length (pd_frames p) = length fs \<and>
        (\<forall>n < length fs. \<forall>i q. map_of (f_vertices (pd_frames p ! n)) i = Some q \<longrightarrow>
           (\<exists>e \<in> set (ef_vertexPositions (fs ! n)). fst e = i \<and>
              pos_x q = fst (snd e) * k \<and> pos_y q = snd (snd e) * k))) \<and>
     (me_metadata me = None \<longrightarrow> k = 1)"
proof (intro conjI)
  have pv: "pd_vertices p =
      fold (\<lambda>v m. AList.update (ev_id v) (parseVertex me g v) m) (me_vertices me) []"
    by (simp add: p_def parseImportData_def)
  show "\<forall>v \<in> set (me_vertices me). map_of (pd_vertices p) (ev_id v) \<noteq> None"
    unfolding pv by (intro ballI fold_update_defined)
  show "\<forall>i v'. map_of (pd_vertices p) i = Some v' \<longrightarrow>
        (\<exists>v \<in> set (me_vertices me). ev_id v = i \<and>
           v_x v' = fst (ev_position v) * k \<and> v_y v' = snd (ev_position v) * k)"
  proof (intro allI impI)
    fix i v' assume "map_of (pd_vertices p) i = Some v'"
    then obtain v where "v \<in> set (me_vertices me)" "ev_id v = i" "v' = parseVertex me g v"
      unfolding pv using fold_update_Some [of ev_id "parseVertex me g" "me_vertices me" i v']
      by blast
    then show "\<exists>v \<in> set (me_vertices me). ev_id v = i \<and>
           v_x v' = fst (ev_position v) * k \<and> v_y v' = snd (ev_position v) * k"
      by (auto simp: parseVertex_scale k_def)
  qed
  show "me_frames me = None \<longrightarrow> pd_frames p = []"
    by (simp add: p_def parseImportData_def)
  show "\<forall>fs. me_frames me = Some fs \<longrightarrow>
        length (pd_frames p) = length fs \<and>
        (\<forall>n < length fs. \<forall>i q. map_of (f_vertices (pd_frames p ! n)) i = Some q \<longrightarrow>
           (\<exists>e \<in> set (ef_vertexPositions (fs ! n)). fst e = i \<and>
              pos_x q = fst (snd e) * k \<and> pos_y q = snd (snd e) * k))"
  proof (intro allI impI conjI)
    fix fs assume fs: "me_frames me = Some fs"
    then have pf: "pd_frames p = map (parseFrame me g) fs"
      by (simp add: p_def parseImportData_def)
    show "length (pd_frames p) = length fs" by (simp add: pf)
    fix n i q
    assume n: "n < length fs" and q: "map_of (f_vertices (pd_frames p ! n)) i = Some q"
    from q n have "map_of (fold (\<lambda>x m. AList.update (fst x)
                   \<lparr> pos_x = fst (snd x) * k, pos_y = snd (snd x) * k \<rparr> m)
                  (ef_vertexPositions (fs ! n)) []) i = Some q"
      by (simp add: pf parseFrame_positions k_def)
    from fold_update_Some [OF this]
    show "\<exists>e \<in> set (ef_vertexPositions (fs ! n)). fst e = i \<and>
              pos_x q = fst (snd e) * k \<and> pos_y q = snd (snd e) * k"
      by auto
  qed
  show "me_metadata me = None \<longrightarrow> k = 1"
    by (simp add: k_def importScale_def)
qed

theorem import_grid_conversion_witness:
  "importScale meGrid 20 = 10 \<and>
   map_option v_x (map_of (pd_vertices (parseImportData meGrid 20)) ''a'') = Some 10 \<and>
   map_option v_y (map_of (pd_vertices (parseImportData meGrid 20)) ''a'') = Some 20"
proof -
  note inst = import_grid_conversion [of meGrid 20]
  have k: "importScale meGrid 20 = 10"
    by (simp add: importScale_def meGrid_def meNoMeta_def)
  have vs: "me_vertices meGrid =
      [\<lparr> ev_id = ''a'', ev_position = (1, 2), ev_type = Anchor, ev_parentId = None \<rparr>]"
    by (simp add: meGrid_def meNoMeta_def)
  have "map_of (pd_vertices (parseImportData meGrid 20)) ''a'' \<noteq> None"
    using inst vs by simp
  then obtain v' where v': "map_of (pd_vertices (parseImportData meGrid 20)) ''a'' = Some v'"
    by blast
  with inst have "\<exists>v \<in> set (me_vertices meGrid). ev_id v = ''a'' \<and>
           v_x v' = fst (ev_position v) * importScale meGrid 20 \<and>
           v_y v' = snd (ev_position v) * importScale meGrid 20"
    by blast
  then have "v_x v' = 10 \<and> v_y v' = 20" by (simp add: vs k)
  then show ?thesis using v' k by simp
qed

text \<open>
  The claim as stated fails: a document without coordinate-system metadata, imported in
  a session with grid size 20, keeps the position \<open>(1, 2)\<close>; it is not multiplied by 20.
\<close>

theorem import_grid_conversion_counterexample:
  "me_metadata meNoMeta = None \<and>
   ev_position (hd (me_vertices meNoMeta)) = (1, 2) \<and>
   pd_vertices (parseImportData meNoMeta 20) = [(''a'', vtx ''a'' 1 2)]"
  by code_simp

section \<open>Export followed by import\<close>























section \<open>Import: validation\<close>

lemma allValid_True:
  "allValid f xs = Inr True \<longleftrightarrow> (\<forall>x \<in> set xs. f x = Inr True)"
  by (induction xs) (auto split: sum.splits)

lemma isPair_iff: "isPair x \<longleftrightarrow> isArray x \<and> length (elems x) = 2"
  by (induction x rule: isPair.induct) auto

lemma vertexValid_True: "vertexValid v = Inr True \<longleftrightarrow> vertexWellFormed v"
  by (cases v) (auto simp: vertexWellFormed_def isPair_iff)

lemma shapeValid_True: "shapeValid s = Inr True \<longleftrightarrow> shapeWellFormed s"
  by (cases s) (auto simp: shapeWellFormed_def)

lemma validate_True_required:
  assumes "validateImportData data = Inr (w, True)"
  shows "requiredFields data"
proof -
  have a: "isArray (jsProp data ''vertices'')" "isArray (jsProp data ''shapes'')"
          "isArray (jsProp data ''groups'')"
    using assms by (auto simp: validateImportData_def split: if_splits sum.splits)
  have v: "allValid vertexValid (elems (jsProp data ''vertices'')) = Inr True"
    using assms by (auto simp: validateImportData_def split: if_splits sum.splits)
  have s: "allValid shapeValid (elems (jsProp data ''shapes'')) = Inr True"
    using assms by (auto simp: validateImportData_def split: if_splits sum.splits)
  show ?thesis
    using a v s
    by (simp add: requiredFields_def allValid_True vertexValid_True shapeValid_True list_all_iff)
qed

text \<open>
  The first half of C5 holds: when a required field is missing or malformed, the import
  reports an error, dispatches nothing, and the document is what it was.
\<close>

lemma import_rejects_malformed:
  assumes "\<not> requiredFields data"
  shows "(\<exists>e. importFromJSON st g c (Some data) = ImportFailed e) \<and>
         documentAfterImport env st g c (Some data) = Some st"
proof -
  have nv: "\<And>w. validateImportData data \<noteq> Inr (w, True)"
    using assms validate_True_required by blast
  have "\<exists>e. importFromJSON st g c (Some data) = ImportFailed e"
  proof (cases "validateImportData data")
    case (Inl e)
    then show ?thesis by (simp add: importFromJSON_def)
  next
    case (Inr r)
    obtain w ok where r: "r = (w, ok)" by (cases r)
    with Inr nv have "\<not> ok" by auto
    then show ?thesis using Inr r by (simp add: importFromJSON_def)
  qed
  then show ?thesis by (auto simp: documentAfterImport_def)
qed

lemma versionWarned_Inr:
  "(\<exists>w. versionWarned x = Inr w) \<longleftrightarrow> x = None \<or> x = Some JNull \<or> (\<exists>s. x = Some (JStr s))"
  by (induction x rule: versionWarned.induct) auto

lemma usesGridUnits_version [simp]:
  "usesGridUnits (me\<lparr> me_version := x \<rparr>) = usesGridUnits me"
  by (simp add: usesGridUnits_def)

lemma importGridSize_version [simp]:
  "importGridSize (me\<lparr> me_version := x \<rparr>) g = importGridSize me g"
  by (simp add: importGridSize_def)

lemma fromGridUnits_version [simp]:
  "fromGridUnits (me\<lparr> me_version := x \<rparr>) g = fromGridUnits me g"
  by (simp add: fromGridUnits_def fun_eq_iff)

lemma parseVertex_version [simp]:
  "parseVertex (me\<lparr> me_version := x \<rparr>) g = parseVertex me g"
  by (simp add: parseVertex_def fun_eq_iff)

lemma parseKind_version [simp]:
  "parseKind (me\<lparr> me_version := x \<rparr>) g = parseKind me g"
  by (simp add: parseKind_def fun_eq_iff Let_def cong: if_cong)

lemma parseShape_version [simp]:
  "parseShape (me\<lparr> me_version := x \<rparr>) g = parseShape me g"
  by (simp add: parseShape_def fun_eq_iff)

lemma parseFrame_version [simp]:
  "parseFrame (me\<lparr> me_version := x \<rparr>) g = parseFrame me g"
  by (simp add: parseFrame_def fun_eq_iff cong: option.case_cong if_cong)

lemma parseImportData_version:
  "parseImportData (me\<lparr> me_version := x \<rparr>) g = parseImportData me g"
  by (simp add: parseImportData_def cong: option.case_cong)

lemma asMeshExport_version:
  assumes "\<forall>n. n \<noteq> ''version'' \<longrightarrow> map_of kvs1 n = map_of kvs2 n"
  shows "asMeshExport (JObj kvs1) =
           map_option (\<lambda>me. me\<lparr> me_version := (case asStr (map_of kvs1 ''version'') of
                                                  None \<Rightarrow> [] | Some s \<Rightarrow> s) \<rparr>)
             (asMeshExport (JObj kvs2))"
proof -
  have e: "map_of kvs1 ''vertices'' = map_of kvs2 ''vertices''"
          "map_of kvs1 ''shapes'' = map_of kvs2 ''shapes''"
          "map_of kvs1 ''groups'' = map_of kvs2 ''groups''"
          "map_of kvs1 ''frames'' = map_of kvs2 ''frames''"
          "map_of kvs1 ''metadata'' = map_of kvs2 ''metadata''"
    using assms by simp_all
  show ?thesis
    by (simp add: asMeshExport_def e split: option.splits)
qed

lemma validate_version:
  assumes same: "\<forall>n. n \<noteq> ''version'' \<longrightarrow> map_of kvs1 n = map_of kvs2 n"
      and w1: "versionWarned (map_of kvs1 ''version'') = Inr w1"
      and w2: "versionWarned (map_of kvs2 ''version'') = Inr w2"
  shows "validateImportData (JObj kvs1) =
           map_sum id (\<lambda>(w, ok). (w1, ok)) (validateImportData (JObj kvs2))"
proof -
  have e: "map_of kvs1 ''vertices'' = map_of kvs2 ''vertices''"
          "map_of kvs1 ''shapes'' = map_of kvs2 ''shapes''"
          "map_of kvs1 ''groups'' = map_of kvs2 ''groups''"
          "map_of kvs1 ''frames'' = map_of kvs2 ''frames''"
    using same by simp_all
  show ?thesis
    by (simp add: validateImportData_def e w1 w2 split: sum.splits)
qed

text \<open>
  The second half of C5 holds for a version that is missing, \<open>null\<close> or a string: two
  documents that differ in such a version only are imported alike, whatever the prefix.
\<close>

lemma import_version_advisory:
  assumes same: "\<forall>n. n \<noteq> ''version'' \<longrightarrow> map_of kvs1 n = map_of kvs2 n"
      and w1: "versionWarned (map_of kvs1 ''version'') = Inr w1"
      and w2: "versionWarned (map_of kvs2 ''version'') = Inr w2"
  shows "importFromJSON st g c (Some (JObj kvs1)) = importFromJSON st g c (Some (JObj kvs2))"
proof -
  note v = validate_version [OF same w1 w2]
  note m = asMeshExport_version [OF same]
  show ?thesis
  proof (cases "validateImportData (JObj kvs2)")
    case (Inl e)
    then show ?thesis using v by (simp add: importFromJSON_def)
  next
    case (Inr r)
    obtain w ok where r: "r = (w, ok)" by (cases r)
    show ?thesis
      using v Inr r m
      by (cases "asMeshExport (JObj kvs2)")
         (simp_all add: importFromJSON_def parseImportData_version)
  qed
qed

text \<open>
  C5. Import fails and leaves the document as it is whenever a required field is missing
  or malformed, and a version mismatch alone only logs a warning and never blocks an
  otherwise valid import. The code breaks the second half for a version that is not a
  string: the same one-vertex document is imported with the version \<open>"1.0.0"\<close> (with
  the warning) and with \<open>"2.1.0"\<close>, and rejected with a TypeError, thrown by
  \<open>data.version?.startsWith\<close>, when its version is the number 2.
\<close>

theorem import_numeric_version_blocked:
  "validateImportData (docWithVersion (JNum 2)) = Inl TypeError \<and>
   importFromJSON emptyState 20 False (Some (docWithVersion (JNum 2))) = ImportFailed TypeError \<and>
   validateImportData (docWithVersion (JStr ''1.0.0'')) = Inr (True, True) \<and>
   importFromJSON emptyState 20 False (Some (docWithVersion (JStr ''1.0.0''))) =
     ImportDispatch (IMPORT_DATA [(''a'', vtx ''a'' 1 2)] [] [] (Some [])) \<and>
   importFromJSON emptyState 20 False (Some (docWithVersion (JStr ''2.1.0''))) =
     ImportDispatch (IMPORT_DATA [(''a'', vtx ''a'' 1 2)] [] [] (Some []))"
  by code_simp

theorem import_numeric_version_blocked_witness:
  "importFromJSON emptyState 20 False (Some (docWithVersion (JNum 2))) = ImportFailed TypeError \<and>
   importFromJSON emptyState 20 False (Some (docWithVersion (JStr ''1.0.0''))) =
     importFromJSON emptyState 20 False (Some (docWithVersion (JStr ''2.1.0'')))"
  using import_numeric_version_blocked by simp


section \<open>Referential integrity along a run\<close>












lemma every_entry:
  "list_all (\<lambda>(k, sh). P sh) m \<Longrightarrow> map_of m k = Some sh \<Longrightarrow> P sh"
  using map_of_SomeD [of m k sh] unfolding list_all_iff by fast

lemma every_fold:
  assumes "\<And>e m. Q m \<Longrightarrow> Q (f e m)"
  shows "Q m \<Longrightarrow> Q (fold f xs m)"
  by (induction xs arbitrary: m) (simp_all add: assms)





lemma shapeOk_referenced:
  "shapeOk vs sh \<Longrightarrow> referenced sh \<subseteq> fst ` set vs"
  unfolding shapeOk_def bezierConsistent_def referenced_def
  by (cases "s_kind sh") auto













lemma untouched_segmentIds:
  "\<not> list_ex (segmentTouched S) segs \<Longrightarrow> set (segmentIds segs) \<inter> S = {}"
  by (induction segs) (auto simp: segmentIds_def segmentTouched_def)










lemma integrity_ok: "integrity s \<Longrightarrow> list_all (\<lambda>(k, sh). shapeOk (vertices s) sh) (shapes s)"
  by (simp add: integrity_def docOk_def)


















lemma integrity_referenced:
  assumes i: "integrity s" and m: "map_of (shapes s) k = Some sh"
  shows "referenced sh \<subseteq> fst ` set (vertices s)"
  by (rule shapeOk_referenced [OF every_entry [OF integrity_ok [OF i] m]])







text \<open>
  A dispatched bezier has to list the vertices of its segments: the bezier \<open>halfBez\<close>
  names existing vertices only, in \<open>vertexIds\<close> and in its segment, and lists the end
  points alone; DELETE_VERTEX of the control point \<open>c1\<close> then leaves the bezier in the
  document, with a segment that names the deleted vertex.
\<close>

lemma segment_reference_lost:
  "referenced halfBez = {''a'', ''c1'', ''c2'', ''b''} \<and>
   shapes (runActions emptyState buildHalfBezier) = [(''bz'', halfBez)] \<and>
   map_of (vertices (runActions emptyState buildHalfBezier)) ''c1'' = None"
proof -
  have "referenced halfBez = {''a'', ''c1'', ''c2'', ''b''}"
    by (auto simp: referenced_def halfBez_def mkShape_def segmentIds_def seg0_def)
  moreover have "shapes (runActions emptyState buildHalfBezier) = [(''bz'', halfBez)] \<and>
   map_of (vertices (runActions emptyState buildHalfBezier)) ''c1'' = None"
    by (simp add: buildHalfBezier_def bezDoc_def appReducer.simps emptyState_def halfBez_def
                  mkShape_def vtx_def shapesToDelete_def)
  ultimately show ?thesis by simp
qed


section \<open>MERGE_VERTICES on a bezier that does not list its segments\<close>

lemma merge_vertices_consistent:
  fixes s :: AppState and env :: Env and ids :: "string list" and p :: Pos
  assumes d: "distinct (map fst (shapes s))" and fresh: "genId env \<notin> set ids"
      and bc: "list_all (\<lambda>(k, sh). bezierConsistent sh) (shapes s)"
      and two: "2 \<le> length ids"
  defines "s' \<equiv> appReducer env s (MERGE_VERTICES ids p)"
  defines "new \<equiv> genId env"
  shows "\<forall>k sh. map_of (shapes s) k = Some sh \<longrightarrow>
           map_of (shapes s') k =
             Some (sh\<lparr> s_kind := (case s_kind sh of
                                     Bezier segs c \<Rightarrow> Bezier (map (mergeSegment (set ids) new) segs) c
                                   | kd \<Rightarrow> kd),
                       vertexIds := map (renameId (set ids) new) (vertexIds sh) \<rparr>)"
proof (intro allI impI)
  fix k sh assume m: "map_of (shapes s) k = Some sh"
  have "shapes s' = mergeShapes (set ids) new (shapes s)"
    unfolding s'_def new_def using merge_state [OF two, of env s p] by simp
  then have shp: "shapes s' =
      map (\<lambda>(k, v). (k, case mergeShape (set ids) new v of None \<Rightarrow> v | Some v' \<Rightarrow> v')) (shapes s)"
    using d by (simp add: mergeShapes_map)
  have r: "map_of (shapes s') k =
            Some (case mergeShape (set ids) new sh of None \<Rightarrow> sh | Some v' \<Rightarrow> v')"
    using m by (simp add: shp map_of_map_values)
  have c: "bezierConsistent sh" by (rule every_entry [OF bc m])
  show "map_of (shapes s') k =
             Some (sh\<lparr> s_kind := (case s_kind sh of
                                     Bezier segs c \<Rightarrow> Bezier (map (mergeSegment (set ids) new) segs) c
                                   | kd \<Rightarrow> kd),
                       vertexIds := map (renameId (set ids) new) (vertexIds sh) \<rparr>)"
  proof (cases "s_kind sh")
    case (Bezier segs cl)
    have eq: "vertexIds sh = segmentIds segs" using c Bezier by (simp add: bezierConsistent_def)
    have "\<not> (\<exists>g \<in> set segs. segmentTouched (set ids) g) \<Longrightarrow>
          map (renameId (set ids) new) (segmentIds segs) = segmentIds segs"
    proof -
      assume "\<not> (\<exists>g \<in> set segs. segmentTouched (set ids) g)"
      then have "\<not> list_ex (segmentTouched (set ids)) segs" by (simp add: list_ex_iff)
      from untouched_segmentIds [OF this]
      have "\<forall>x \<in> set (segmentIds segs). renameId (set ids) new x = x"
        by (auto simp: renameId_def)
      then show ?thesis by (simp add: map_idI)
    qed
    then show ?thesis
      using Bezier eq
      by (cases "\<exists>g \<in> set segs. segmentTouched (set ids) g")
         (simp_all add: r mergeShape_result segmentIds_merge list_ex_iff)
  next
    case Line
    then show ?thesis by (simp add: r mergeShape_result)
  next
    case Rect
    then show ?thesis by (simp add: r mergeShape_result)
  next
    case (Circle x)
    then show ?thesis by (simp add: r mergeShape_result)
  next
    case (Polygon x)
    then show ?thesis by (simp add: r mergeShape_result)
  qed
qed

lemma looseBezJson_valid: "validateImportData looseBezJson = Inr (False, True)"
  by code_simp

lemma looseBezJson_typed: "asMeshExport looseBezJson = Some looseMesh"
  by (simp add: looseBezJson_def styleJson_def looseMesh_def asMeshExport_def asList_def
        asExVertex_def asExShape_def asExProperties_def asExStyle_def optField_def)


lemma looseMesh_parsed: "parseImportData looseMesh 20 =
   \<lparr> pd_vertices = [(''a'', vtx ''a'' 0 0), (''b'', vtx ''b'' 100 0)],
     pd_shapes = [(''bz'', looseBez), (''L'', lineL)], pd_groups = [], pd_frames = [] \<rparr>"
  by (simp add: parseImportData_def looseMesh_def parseVertex_def fromGridUnits_def
        usesGridUnits_def parseShape_def parseKind_def parseStyle_def looseBez_def lineL_def
        mkShape_def style0_def vtx_def)

lemma looseBezJson_imported: "documentAfterImport env0 emptyState 20 False (Some looseBezJson) = Some importedLooseDoc"
  by (simp add: documentAfterImport_def importFromJSON_def looseBezJson_valid looseBezJson_typed looseMesh_parsed importAction_def
        importedLooseDoc_def emptyState_def)

lemma importedLooseDoc_content: "vertices importedLooseDoc = [(''a'', vtx ''a'' 0 0), (''b'', vtx ''b'' 100 0)] \<and>
   shapes importedLooseDoc = [(''bz'', looseBez), (''L'', lineL)]"
  by (simp add: importedLooseDoc_def appReducer.simps)

lemma mergedLooseDoc_content: "vertices mergedLooseDoc = [(''g1'', vtx ''g1'' 50 0)] \<and>
   shapes mergedLooseDoc = [(''bz'', looseBez), (''L'', mkShape ''L'' Line [''g1'', ''g1''])]"
  by (simp add: mergedLooseDoc_def appReducer.simps importedLooseDoc_content env0_def vtx_def mergeShapes_def
        mergeShape_def looseBez_def lineL_def mkShape_def Let_def)

text \<open>
  C3. On every document whose beziers list their segments MERGE_VERTICES does what the
  claim says (\<open>merge_vertices_effect\<close>, \<open>merge_vertices_consistent\<close>). The code breaks the
  claim on a bezier that does not: \<open>validateImportData\<close> accepts a bezier entry without
  \<open>properties.segments\<close>, \<open>parseImportData\<close> gives it no segment, and the merge, which
  renames the \<open>vertexIds\<close> of every other kind of shape, rebuilds those of a bezier from
  its segments only. After the import of such a file and the merge of \<open>a\<close> and \<open>b\<close>, the
  line over the two vertices names the new vertex twice and the bezier still names the
  two deleted vertices.
\<close>

theorem merge_vertices_imported_bezier:
  "validateImportData looseBezJson = Inr (False, True) \<and>
   documentAfterImport env0 emptyState 20 False (Some looseBezJson) = Some importedLooseDoc \<and>
   vertices importedLooseDoc = [(''a'', vtx ''a'' 0 0), (''b'', vtx ''b'' 100 0)] \<and>
   shapes importedLooseDoc = [(''bz'', looseBez), (''L'', lineL)] \<and>
   s_kind looseBez = Bezier [] False \<and> vertexIds looseBez = [''a'', ''b''] \<and>
   vertices mergedLooseDoc = [(''g1'', vtx ''g1'' 50 0)] \<and>
   shapes mergedLooseDoc = [(''bz'', looseBez), (''L'', mkShape ''L'' Line [''g1'', ''g1''])]"
  using looseBezJson_valid looseBezJson_imported importedLooseDoc_content mergedLooseDoc_content by (simp add: looseBez_def mkShape_def)

theorem merge_vertices_imported_bezier_witness:
  "map_option vertexIds (map_of (shapes mergedLooseDoc) ''bz'') = Some [''a'', ''b''] \<and>
   map_of (vertices mergedLooseDoc) ''a'' = None \<and>
   map_option vertexIds (map_of (shapes mergedLooseDoc) ''L'') = Some [''g1'', ''g1'']"
  using merge_vertices_imported_bezier by (simp add: looseBez_def mkShape_def)

end
